theory Spec2Isabelle
  imports Complex_Main "HOL-Library.Word"
begin

unbundle bit_operations_syntax

section \<open>The OpenCL profiling harness \<open>gpu_profile.cpp\<close>\<close>

text \<open>
  The program is one linear run of calls into the OpenCL runtime and the C library. Its
  model is a function from the answers of the outside world (the record \<open>env\<close>: the status
  every call returns, the files that exist, what the device hands back) to the sequence
  of calls and prints the program makes (a list of \<open>event\<close>) and the way the process ends
  (an \<open>outcome\<close>). \<open>cl_int\<close> and \<open>int\<close> are \<open>32 word\<close>, compared signed; \<open>cl_ulong\<close> is
  \<open>64 word\<close>.
\<close>

subsection \<open>Single-precision values\<close>

text \<open>
  A \<open>float\<close> is a finite real, an infinity or a NaN. The two zeros are not told apart (they
  compare equal, and no claim prints one). Arithmetic rounds the exact result to the nearest
  value with a 24-bit significand, ties to even, with the subnormal range below \<open>2\<^sup>-\<^sup>1\<^sup>2\<^sup>6\<close>
  and overflow to infinity from \<open>2\<^sup>1\<^sup>2\<^sup>8\<close>.
\<close>

datatype f32 = Finite real | PosInf | NegInf | NaN

definition round_ties_even :: "real \<Rightarrow> int" where
  "round_ties_even y =
     (let f = \<lfloor>y\<rfloor> in
      if y - of_int f < 1 / 2 then f
      else if 1 / 2 < y - of_int f then f + 1
      else if even f then f else f + 1)"

definition f32_ulp_exponent :: "real \<Rightarrow> int" where
  "f32_ulp_exponent x = max (\<lfloor>log 2 \<bar>x\<bar>\<rfloor> - 23) (- 149)"

definition f32_round :: "real \<Rightarrow> f32" where
  "f32_round x =
     (if x = 0 then Finite 0
      else let e = f32_ulp_exponent x;
               r = of_int (round_ties_even (x / 2 powr of_int e)) * 2 powr of_int e
           in if 2 ^ 128 \<le> r then PosInf
              else if r \<le> - (2 ^ 128) then NegInf
              else Finite r)"

text \<open>The conversion \<open>(float) i\<close> of an \<open>int\<close>.\<close>

definition f32_of_int :: "int \<Rightarrow> f32" where
  "f32_of_int i = f32_round (of_int i)"

fun f32_neg :: "f32 \<Rightarrow> f32" where
  "f32_neg (Finite x) = Finite (- x)"
| "f32_neg PosInf = NegInf"
| "f32_neg NegInf = PosInf"
| "f32_neg NaN = NaN"

fun f32_add :: "f32 \<Rightarrow> f32 \<Rightarrow> f32" where
  "f32_add (Finite x) (Finite y) = f32_round (x + y)"
| "f32_add NaN b = NaN"
| "f32_add a NaN = NaN"
| "f32_add PosInf NegInf = NaN"
| "f32_add NegInf PosInf = NaN"
| "f32_add PosInf b = PosInf"
| "f32_add a PosInf = PosInf"
| "f32_add NegInf b = NegInf"
| "f32_add a NegInf = NegInf"

definition f32_sub :: "f32 \<Rightarrow> f32 \<Rightarrow> f32" where
  "f32_sub a b = f32_add a (f32_neg b)"

fun f32_sign_inf :: "bool \<Rightarrow> f32" where
  "f32_sign_inf True = NegInf"
| "f32_sign_inf False = PosInf"

fun f32_mul :: "f32 \<Rightarrow> f32 \<Rightarrow> f32" where
  "f32_mul (Finite x) (Finite y) = f32_round (x * y)"
| "f32_mul NaN b = NaN"
| "f32_mul a NaN = NaN"
| "f32_mul (Finite x) PosInf = (if x = 0 then NaN else f32_sign_inf (x < 0))"
| "f32_mul (Finite x) NegInf = (if x = 0 then NaN else f32_sign_inf (0 < x))"
| "f32_mul PosInf (Finite y) = (if y = 0 then NaN else f32_sign_inf (y < 0))"
| "f32_mul NegInf (Finite y) = (if y = 0 then NaN else f32_sign_inf (0 < y))"
| "f32_mul PosInf PosInf = PosInf"
| "f32_mul NegInf NegInf = PosInf"
| "f32_mul PosInf NegInf = NegInf"
| "f32_mul NegInf PosInf = NegInf"

text \<open>
  \<open>abs\<close> on a \<open>float\<close> (the source is built against the macOS OpenCL framework, whose C++
  library declares the \<open>float\<close> overload of \<open>abs\<close> in the global namespace).
\<close>

fun f32_abs :: "f32 \<Rightarrow> f32" where
  "f32_abs (Finite x) = Finite \<bar>x\<bar>"
| "f32_abs PosInf = PosInf"
| "f32_abs NegInf = PosInf"
| "f32_abs NaN = NaN"

text \<open>
  \<open>a > c\<close> for a \<open>float\<close> \<open>a\<close> and a \<open>double\<close> constant \<open>c\<close>: the \<open>float\<close> is widened
  (exactly) and compared; a NaN compares false.
\<close>

fun f32_gt_double :: "f32 \<Rightarrow> real \<Rightarrow> bool" where
  "f32_gt_double (Finite x) c = (c < x)"
| "f32_gt_double PosInf c = True"
| "f32_gt_double NegInf c = False"
| "f32_gt_double NaN c = False"

text \<open>
  The conversion of a \<open>cl_ulong\<close> to \<open>double\<close>: the nearest value with a 53-bit
  significand, ties to even (a 64-bit count is below the overflow threshold of \<open>double\<close>).
\<close>

definition f64_of_u64 :: "64 word \<Rightarrow> real" where
  "f64_of_u64 w =
     (let x = real (unat w) in
      if x = 0 then 0
      else let e = \<lfloor>log 2 x\<rfloor> - 52
           in of_int (round_ties_even (x / 2 powr of_int e)) * 2 powr of_int e)"

subsection \<open>Calls, outcomes and the outside world\<close>

datatype device_type = CL_DEVICE_TYPE_GPU | CL_DEVICE_TYPE_CPU

text \<open>The three \<open>cl_mem\<close> members of \<open>struct Runtime\<close>.\<close>

datatype mem_member = Input_buffer | Bias_buffer | Output_buffer

datatype profiling_info =
    CL_PROFILING_COMMAND_QUEUED
  | CL_PROFILING_COMMAND_SUBMIT
  | CL_PROFILING_COMMAND_START
  | CL_PROFILING_COMMAND_END

text \<open>
  The calls the trace records: every OpenCL call, \<open>fopen\<close>, \<open>gettimeofday\<close> and every
  \<open>printf\<close>. \<open>Printf_profile\<close> carries the five values of the timestamp report in the order
  the format string takes them, \<open>Printf_mismatch\<close> the index and the two values of the line
  \<open>"%d %f vs %f \n"\<close>.
\<close>

datatype event =
    Gettimeofday
  | ClGetPlatformIDs
  | ClGetDeviceIDs device_type
  | ClCreateContext
  | Fopen string
  | ClCreateProgramWithSource string
  | ClBuildProgram
  | ClGetProgramBuildInfo
  | ClCreateCommandQueue
  | ClCreateKernel string
  | ClCreateBuffer mem_member
  | ClSetKernelArg nat mem_member
  | ClEnqueueNDRangeKernel nat
  | ClWaitForEvents
  | ClGetEventProfilingInfo profiling_info
  | ClEnqueueReadBuffer mem_member
  | ClFinish
  | Printf string
  | Printf_profile "64 word" "64 word" "64 word" "64 word" real
  | Printf_elapsed
  | Printf_mismatch nat f32 f32
  | ClReleaseKernel
  | ClReleaseMemObject mem_member
  | ClReleaseCommandQueue
  | ClReleaseProgram
  | ClReleaseContext

text \<open>
  \<open>Exit c\<close>: the process ends with status \<open>c\<close>. \<open>Undefined_behaviour\<close>: the program passes
  a null \<open>FILE*\<close> to \<open>fseek\<close>; nothing is known of what follows.
\<close>

datatype outcome = Exit int | Undefined_behaviour

text \<open>
  What the outside world answers. A \<open>..._status\<close> field is the status the call of that
  name returns (for a creation call, the value it writes through its \<open>errcode_ret\<close>
  pointer); \<open>files\<close> maps a path to the text of the file, if \<open>fopen\<close> can open it;
  \<open>indeterminate_status\<close> is the value the program finds in the local \<open>status\<close> of
  \<open>build_program\<close>, which it reads before assigning to it; \<open>profiling\<close> gives the four
  timestamps of the event; \<open>device_output\<close> is the content of \<open>output_data\<close> after the
  blocking read of the whole output buffer, by index.
\<close>

record env =
  platform_status :: "32 word"
  gpu_status :: "32 word"
  cpu_status :: "32 word"
  context_status :: "32 word"
  files :: "string \<Rightarrow> string option"
  indeterminate_status :: "32 word"
  program_status :: "32 word"
  build_status :: "32 word"
  build_log :: string
  queue_status :: "32 word"
  kernel_status :: "32 word"
  input_buffer_status :: "32 word"
  bias_buffer_status :: "32 word"
  output_buffer_status :: "32 word"
  arg0_status :: "32 word"
  arg1_status :: "32 word"
  arg2_status :: "32 word"
  enqueue_status :: "32 word"
  profiling :: "profiling_info \<Rightarrow> 64 word"
  read_status :: "32 word"
  finish_status :: "32 word"
  device_output :: "nat \<Rightarrow> f32"

text \<open>
  A piece of the program yields the calls it made and, when it ended the process, how;
  \<open>None\<close> means control goes on to the next statement.
\<close>

type_synonym run = "event list \<times> outcome option"

definition emit :: "event list \<Rightarrow> run \<Rightarrow> run" where
  "emit evs r = (evs @ fst r, snd r)"

definition and_then :: "run \<Rightarrow> run \<Rightarrow> run" where
  "and_then r k = (case snd r of Some out \<Rightarrow> r | None \<Rightarrow> emit (fst r) k)"

fun run_stages :: "(env \<Rightarrow> run) list \<Rightarrow> env \<Rightarrow> run" where
  "run_stages [] env = ([], None)"
| "run_stages (s # ss) env = and_then (s env) (run_stages ss env)"

subsection \<open>The program\<close>

text \<open>
  \<open>check_status\<close>, \<open>init_device\<close> and \<open>build_program\<close> are the functions of these names.
  \<open>main\<close> is cut at its comments into the statements of \<open>main_body\<close>, run in this order
  until one of them ends the process. \<open>exit(1)\<close> ends the process where it stands: the
  destructor of the local \<open>runtime\<close> runs only when \<open>main\<close> returns.
\<close>

definition check_status :: "32 word \<Rightarrow> string \<Rightarrow> run" where
  "check_status status message =
     (if status <s 0 then ([Printf message], Some (Exit 1)) else ([], None))"

definition ARRAY_SIZE :: nat where
  "ARRAY_SIZE = 100000"

definition PROGRAM_FILE :: string where
  "PROGRAM_FILE = ''add.cl''"

definition KERNEL_FUNC :: string where
  "KERNEL_FUNC = ''add''"

text \<open>
  Modelled from the spec: the header \<open>cl.h\<close> is not among the sources; this is the status
  the platform reports when it has no device of the class asked for (\<open>-1\<close> in the Khronos
  header).
\<close>

definition CL_DEVICE_NOT_FOUND :: "32 word" where
  "CL_DEVICE_NOT_FOUND = - 1"

definition init_device :: "env \<Rightarrow> run" where
  "init_device env =
     (let status = platform_status env in
      if status <s 0 then ([ClGetPlatformIDs, Printf ''could not get a platform''], Some (Exit 1))
      else
        let status = gpu_status env;
            calls = [ClGetPlatformIDs, ClGetDeviceIDs CL_DEVICE_TYPE_GPU];
            (status, calls) =
              (if status = CL_DEVICE_NOT_FOUND
               then (cpu_status env, calls @ [ClGetDeviceIDs CL_DEVICE_TYPE_CPU])
               else (status, calls))
        in if status <s 0 then (calls @ [Printf ''no devices found''], Some (Exit 1))
           else (calls, None))"

text \<open>
  \<open>build_program\<close> checks its local \<open>status\<close> after \<open>fopen\<close>, before anything has been
  assigned to it: the value checked is \<open>indeterminate_status\<close>. With no file, the next
  statement is \<open>fseek\<close> on the null handle.
\<close>

definition build_program :: "string \<Rightarrow> env \<Rightarrow> run" where
  "build_program filename env =
     emit [Fopen filename]
       (and_then (check_status (indeterminate_status env) ''find opencl kernel failed'')
          (case files env filename of
             None \<Rightarrow> ([], Some Undefined_behaviour)
           | Some program_buffer \<Rightarrow>
               emit [ClCreateProgramWithSource program_buffer]
                 (and_then (check_status (program_status env) ''create program failed'')
                    (emit [ClBuildProgram]
                       (if build_status env <s 0
                        then ([ClGetProgramBuildInfo, ClGetProgramBuildInfo,
                               Printf (build_log env @ [CHR 0x0A])], Some (Exit 1))
                        else ([], None))))))"

text \<open>The statements of \<open>main\<close>, in the order of the source.\<close>

definition start_timer :: "env \<Rightarrow> run" where
  "start_timer env = ([Gettimeofday], None)"

definition create_context :: "env \<Rightarrow> run" where
  "create_context env =
     emit [ClCreateContext] (check_status (context_status env) ''create context failed'')"

definition create_queue :: "env \<Rightarrow> run" where
  "create_queue env =
     emit [ClCreateCommandQueue] (check_status (queue_status env) ''create command queue failed'')"

definition create_kernel :: "env \<Rightarrow> run" where
  "create_kernel env =
     emit [ClCreateKernel KERNEL_FUNC] (check_status (kernel_status env) ''create kernel failed'')"

text \<open>
  The loop \<open>for (int i = 0; i < ARRAY_SIZE; i++)\<close> that fills the two host arrays:
  \<open>input_data[i] = 1.f * (float) i\<close> and \<open>bias_data[i] = 10000.f\<close>.
\<close>

definition input_data :: "f32 list" where
  "input_data = map (\<lambda>i. f32_mul (Finite 1) (f32_of_int (int i))) [0..<ARRAY_SIZE]"

definition bias_data :: "f32 list" where
  "bias_data = replicate ARRAY_SIZE (Finite 10000)"

text \<open>
  The three \<open>clCreateBuffer\<close> calls are handed the same \<open>&status\<close>; \<open>check_status\<close>
  follows the third.
\<close>

definition create_buffers :: "env \<Rightarrow> run" where
  "create_buffers env =
     (let status = input_buffer_status env;
          status = bias_buffer_status env;
          status = output_buffer_status env
      in emit [ClCreateBuffer Input_buffer, ClCreateBuffer Bias_buffer, ClCreateBuffer Output_buffer]
           (check_status status ''create buffer failed''))"

text \<open>\<open>status = clSetKernelArg(...); status |= ...; status |= ...; check_status(status, ...)\<close>.\<close>

definition config_args :: "env \<Rightarrow> run" where
  "config_args env =
     (let status = arg0_status env;
          status = status OR arg1_status env;
          status = status OR arg2_status env
      in emit [ClSetKernelArg 0 Input_buffer, ClSetKernelArg 1 Bias_buffer,
               ClSetKernelArg 2 Output_buffer]
           (check_status status ''create kernel failed''))"

text \<open>
  The dispatch, the wait on its event, the check of the dispatch status, the four timestamp
  reads and the report, whose format string takes \<open>t_queued, t_start, t_submit, t_end\<close> and
  the \<open>double\<close> \<open>(t_end - t_start) * 1e-0\<close>: the difference is taken in \<open>cl_ulong\<close>, where
  it wraps, then converted; the product with 1.0 is exact.
\<close>

definition profile_kernel :: "env \<Rightarrow> run" where
  "profile_kernel env =
     (let status = enqueue_status env in
      emit [ClEnqueueNDRangeKernel ARRAY_SIZE, ClWaitForEvents]
        (and_then (check_status status ''clEnqueueNDRangeKernel failed'')
           (let t_queued = profiling env CL_PROFILING_COMMAND_QUEUED;
                t_submit = profiling env CL_PROFILING_COMMAND_SUBMIT;
                t_start = profiling env CL_PROFILING_COMMAND_START;
                t_end = profiling env CL_PROFILING_COMMAND_END
            in ([ClGetEventProfilingInfo CL_PROFILING_COMMAND_QUEUED,
                 ClGetEventProfilingInfo CL_PROFILING_COMMAND_SUBMIT,
                 ClGetEventProfilingInfo CL_PROFILING_COMMAND_START,
                 ClGetEventProfilingInfo CL_PROFILING_COMMAND_END,
                 Printf_profile t_queued t_start t_submit t_end
                   (f64_of_u64 (t_end - t_start))], None))))"

definition read_output :: "env \<Rightarrow> run" where
  "read_output env =
     emit [ClEnqueueReadBuffer Output_buffer]
       (check_status (read_status env) ''clEnqueueReadBuffer failed'')"

text \<open>
  \<open>status = clFinish(runtime.queue)\<close>, followed by the second \<open>gettimeofday\<close> and the
  report of the elapsed time; \<open>status\<close> is not read again before the program ends.
\<close>

definition finish_opencl :: "env \<Rightarrow> run" where
  "finish_opencl env =
     (let status = finish_status env in ([ClFinish, Gettimeofday, Printf_elapsed], None))"

text \<open>
  The checking loop \<open>for (int i = 0; i < ARRAY_SIZE; ++i)\<close>, from index \<open>i\<close> on. The index
  stays below 100000, so the \<open>int\<close> is a \<open>nat\<close> here; \<open>1e5\<close> is the \<open>double\<close> 100000.
\<close>

function check_results :: "(nat \<Rightarrow> f32) \<Rightarrow> nat \<Rightarrow> run" where
  "check_results output_data i =
     (if i < ARRAY_SIZE then
        (let output = f32_add (bias_data ! i) (input_data ! i) in
         and_then
           (if f32_gt_double (f32_abs (f32_sub output (output_data i))) 100000
            then emit [Printf_mismatch i output (output_data i)]
                   (check_status (- 1) ''CHECK RESULT FAILED'')
            else ([], None))
           (check_results output_data (Suc i)))
      else ([], None))"
  by pat_completeness auto
termination
  by (relation "measure (\<lambda>(output_data, i). ARRAY_SIZE - i)") auto

definition verify :: "env \<Rightarrow> run" where
  "verify env = and_then (check_results (device_output env) 0) ([Printf ''ALL PASSED''], None)"

text \<open>\<open>~Runtime()\<close>, run when \<open>main\<close> returns (and not when \<open>exit\<close> is called).\<close>

definition Runtime_destructor :: "event list" where
  "Runtime_destructor =
     [ClReleaseKernel, ClReleaseMemObject Input_buffer, ClReleaseMemObject Output_buffer,
      ClReleaseCommandQueue, ClReleaseProgram, ClReleaseContext]"

definition main_body :: "(env \<Rightarrow> run) list" where
  "main_body =
     [start_timer, init_device, create_context, build_program PROGRAM_FILE, create_queue,
      create_kernel, create_buffers, config_args, profile_kernel, read_output,
      finish_opencl, verify]"

definition main :: "env \<Rightarrow> event list \<times> outcome" where
  "main env =
     (case run_stages main_body env of
        (calls, Some out) \<Rightarrow> (calls, out)
      | (calls, None) \<Rightarrow> (calls @ Runtime_destructor, Exit 0))"

subsection \<open>Notions used in the statements\<close>

text \<open>The condition of the \<open>if\<close> in the checking loop of \<open>main\<close>, at index \<open>i\<close>.\<close>

definition exceeds_tolerance :: "(nat \<Rightarrow> f32) \<Rightarrow> nat \<Rightarrow> bool" where
  "exceeds_tolerance output_data i =
     f32_gt_double
       (f32_abs (f32_sub (f32_add (bias_data ! i) (input_data ! i)) (output_data i))) 100000"

text \<open>
  The statements of \<open>main\<close> up to a given point. That such a prefix yields \<open>None\<close> says that
  control arrives at the statement after it.
\<close>

definition until_context :: "(env \<Rightarrow> run) list" where
  "until_context = [start_timer, init_device, create_context]"

definition until_kernel :: "(env \<Rightarrow> run) list" where
  "until_kernel = until_context @ [build_program PROGRAM_FILE, create_queue, create_kernel]"

definition until_buffers :: "(env \<Rightarrow> run) list" where
  "until_buffers = until_kernel @ [create_buffers]"

definition until_args :: "(env \<Rightarrow> run) list" where
  "until_args = until_buffers @ [config_args]"

definition until_profile :: "(env \<Rightarrow> run) list" where
  "until_profile = until_args @ [profile_kernel]"

definition until_finish :: "(env \<Rightarrow> run) list" where
  "until_finish = until_profile @ [read_output, finish_opencl]"

text \<open>
  An outside world in which the file \<open>add.cl\<close> exists, every call reports success and the
  device hands back the sums.
\<close>

definition all_succeed :: env where
  "all_succeed =
     \<lparr>platform_status = 0, gpu_status = 0, cpu_status = 0, context_status = 0,
      files = (\<lambda>name. if name = ''add.cl'' then Some ''kernel'' else None),
      indeterminate_status = 0, program_status = 0, build_status = 0, build_log = [],
      queue_status = 0, kernel_status = 0, input_buffer_status = 0, bias_buffer_status = 0,
      output_buffer_status = 0, arg0_status = 0, arg1_status = 0, arg2_status = 0,
      enqueue_status = 0, profiling = (\<lambda>p. 0), read_status = 0, finish_status = 0,
      device_output = (\<lambda>i. Finite (real i + 10000))\<rparr>"

section \<open>Sequencing\<close>

lemma and_then_stop: "snd r = Some out \<Longrightarrow> and_then r k = r"
  by (simp add: and_then_def)

lemma and_then_go: "snd r = None \<Longrightarrow> and_then r k = (fst r @ fst k, snd k)"
  by (simp add: and_then_def emit_def)

lemma run_stages_append:
  "run_stages (xs @ ys) env =
     and_then (run_stages xs env) (run_stages ys env)"
proof (induction xs)
  case Nil
  show ?case by (simp add: and_then_def emit_def)
next
  case (Cons s xs)
  show ?case
  proof (cases "snd (s env)")
    case None
    then show ?thesis
      by (cases "snd (run_stages xs env)")
         (simp_all add: Cons.IH and_then_def emit_def)
  next
    case (Some out)
    then show ?thesis by (simp add: and_then_def)
  qed
qed

lemma main_split:
  assumes "main_body = xs @ ys" and "snd (run_stages xs env) = None"
  shows "main env =
     (case run_stages ys env of
        (calls, Some out) \<Rightarrow> (fst (run_stages xs env) @ calls, out)
      | (calls, None) \<Rightarrow> (fst (run_stages xs env) @ calls @ Runtime_destructor, Exit 0))"
proof -
  have "run_stages (xs @ ys) env =
          (fst (run_stages xs env) @ fst (run_stages ys env), snd (run_stages ys env))"
    using assms(2) by (simp add: run_stages_append and_then_go)
  then have "run_stages main_body env =
          (fst (run_stages xs env) @ fst (run_stages ys env), snd (run_stages ys env))"
    by (simp only: assms(1))
  then show ?thesis
    by (cases "run_stages ys env") (simp add: main_def split: option.splits)
qed

lemma fst_and_then: "\<exists>rest. fst (and_then r k) = fst r @ rest"
  by (cases "snd r") (simp_all add: and_then_def emit_def)

lemma main_reaches:
  assumes "main_body = xs @ s # ys" and "snd (run_stages xs env) = None"
  shows "\<exists>rest. fst (main env) = fst (run_stages xs env) @ fst (s env) @ rest"
proof -
  obtain rest where r: "fst (run_stages (s # ys) env) = fst (s env) @ rest"
    using fst_and_then [of "s env" "run_stages ys env"] by auto
  show ?thesis
    using main_split [OF assms] r
    by (cases "run_stages (s # ys) env") (auto split: option.splits)
qed

lemma main_stops:
  assumes "main_body = xs @ s # ys" and "snd (run_stages xs env) = None"
    and "snd (s env) = Some out"
  shows "main env = (fst (run_stages xs env) @ fst (s env), out)"
proof -
  have "run_stages (s # ys) env = s env"
    using assms(3) by (simp add: and_then_stop)
  then show ?thesis
    using main_split [OF assms(1,2)] assms(3)
    by (cases "s env") simp
qed

lemma run_stages_snoc:
  assumes "snd (run_stages xs env) = None"
  shows "run_stages (xs @ [s]) env = (fst (run_stages xs env) @ fst (s env), snd (s env))"
  using assms
  by (cases "snd (s env)") (simp_all add: run_stages_append and_then_def emit_def)

lemma check_status_fst:
  "fst (check_status status message) = (if status <s 0 then [Printf message] else [])"
  by (simp add: check_status_def)

lemma check_status_snd:
  "snd (check_status status message) = (if status <s 0 then Some (Exit 1) else None)"
  by (simp add: check_status_def)

lemma init_device_eval:
  "init_device env =
     (if platform_status env <s 0
      then ([ClGetPlatformIDs, Printf ''could not get a platform''], Some (Exit 1))
      else if gpu_status env = CL_DEVICE_NOT_FOUND
      then (if cpu_status env <s 0
            then ([ClGetPlatformIDs, ClGetDeviceIDs CL_DEVICE_TYPE_GPU,
                   ClGetDeviceIDs CL_DEVICE_TYPE_CPU, Printf ''no devices found''], Some (Exit 1))
            else ([ClGetPlatformIDs, ClGetDeviceIDs CL_DEVICE_TYPE_GPU,
                   ClGetDeviceIDs CL_DEVICE_TYPE_CPU], None))
      else if gpu_status env <s 0
      then ([ClGetPlatformIDs, ClGetDeviceIDs CL_DEVICE_TYPE_GPU,
             Printf ''no devices found''], Some (Exit 1))
      else ([ClGetPlatformIDs, ClGetDeviceIDs CL_DEVICE_TYPE_GPU], None))"
  by (simp add: init_device_def Let_def)

section \<open>Status words\<close>

lemma or_sless_0: "((a :: 32 word) OR b) <s 0 \<longleftrightarrow> a <s 0 \<or> b <s 0"
  by (simp add: word_sless_alt signed_or_eq)

section \<open>Rounding to single precision\<close>

lemma round_ties_even_of_int: "round_ties_even (of_int n) = n"
  by (simp add: round_ties_even_def)

lemma round_ties_even_le: "y \<le> of_int m \<Longrightarrow> round_ties_even y \<le> m"
proof -
  assume h: "y \<le> of_int m"
  have fl: "\<lfloor>y\<rfloor> \<le> m" using h by (simp add: floor_le_iff)
  show ?thesis
  proof (cases "\<lfloor>y\<rfloor> = m")
    case True
    then have "y - of_int \<lfloor>y\<rfloor> \<le> 0" using h by simp
    then show ?thesis using True by (simp add: round_ties_even_def Let_def)
  next
    case False
    then have "\<lfloor>y\<rfloor> + 1 \<le> m" using fl by simp
    then show ?thesis using fl by (simp add: round_ties_even_def Let_def)
  qed
qed

lemma round_ties_even_ge: "of_int m \<le> y \<Longrightarrow> m \<le> round_ties_even y"
proof -
  assume "of_int m \<le> y"
  then have "m \<le> \<lfloor>y\<rfloor>" by (simp add: le_floor_iff)
  then show ?thesis by (simp add: round_ties_even_def Let_def)
qed

lemma f32_ulp_exponent_small:
  assumes "x \<noteq> 0" and "\<bar>x\<bar> < 2 ^ 24"
  shows "f32_ulp_exponent x \<le> 0"
proof -
  have "\<bar>x\<bar> < 2 powr 24" using assms(2) by simp
  then have "log 2 \<bar>x\<bar> < 24"
    using assms(1) by (simp add: log_less_iff)
  then have "\<lfloor>log 2 \<bar>x\<bar>\<rfloor> < 24" by (simp add: floor_less_iff)
  then show ?thesis by (simp add: f32_ulp_exponent_def)
qed

lemma f32_ulp_powr:
  assumes "x \<noteq> 0" and "\<bar>x\<bar> < 2 ^ 24"
  shows "\<exists>k::nat. (2::real) powr of_int (f32_ulp_exponent x) = 1 / 2 ^ k"
proof -
  have "f32_ulp_exponent x \<le> 0" using assms by (rule f32_ulp_exponent_small)
  then have "(2::real) powr of_int (f32_ulp_exponent x) = 1 / 2 ^ nat (- f32_ulp_exponent x)"
    by (simp add: powr_real_of_int inverse_eq_divide)
  then show ?thesis by blast
qed

lemma f32_round_of_int:
  assumes "\<bar>n\<bar> < 2 ^ 24"
  shows "f32_round (of_int n) = Finite (of_int n)"
proof (cases "n = 0")
  case True
  then show ?thesis by (simp add: f32_round_def)
next
  case False
  have b: "\<bar>real_of_int n\<bar> < 2 ^ 24"
    using assms by (metis of_int_abs of_int_less_numeral_power_cancel_iff)
  from False b obtain k :: nat
    where k: "(2::real) powr of_int (f32_ulp_exponent (of_int n)) = 1 / 2 ^ k"
    using f32_ulp_powr [of "of_int n"] by auto
  have "real_of_int n * 2 ^ k = of_int (n * 2 ^ k)" by simp
  then have r: "round_ties_even (real_of_int n * 2 ^ k) = n * 2 ^ k"
    by (simp only: round_ties_even_of_int)
  have "\<bar>real_of_int n\<bar> < 2 ^ 128" using b by simp
  then have "\<not> 2 ^ 128 \<le> real_of_int n" and "\<not> real_of_int n \<le> - (2 ^ 128)"
    by (simp_all add: abs_less_iff)
  then show ?thesis
    using False by (simp add: f32_round_def Let_def k r)
qed

lemma f32_round_bounded:
  assumes "\<bar>d\<bar> \<le> of_int c" and "c < 2 ^ 24"
  shows "\<exists>r. f32_round d = Finite r \<and> \<bar>r\<bar> \<le> of_int c"
proof (cases "d = 0")
  case True
  then show ?thesis using assms by (simp add: f32_round_def)
next
  case False
  have c24: "real_of_int c < 2 ^ 24" using assms(2) by simp
  then have b: "\<bar>d\<bar> < 2 ^ 24" using assms(1) by simp
  from False b obtain k :: nat
    where k: "(2::real) powr of_int (f32_ulp_exponent d) = 1 / 2 ^ k"
    using f32_ulp_powr [of d] by auto
  define m where "m = round_ties_even (d * 2 ^ k)"
  have "d * 2 ^ k \<le> of_int c * 2 ^ k"
    using assms(1) by (intro mult_right_mono) (simp_all add: abs_le_iff)
  then have "d * 2 ^ k \<le> of_int (c * 2 ^ k)" by simp
  then have up: "m \<le> c * 2 ^ k" unfolding m_def by (rule round_ties_even_le)
  have "(- of_int c) * 2 ^ k \<le> d * 2 ^ k"
    using assms(1) by (intro mult_right_mono) (simp_all add: abs_le_iff)
  then have "of_int (- c * 2 ^ k) \<le> d * 2 ^ k" by simp
  then have lo: "- c * 2 ^ k \<le> m" unfolding m_def by (rule round_ties_even_ge)
  have "real_of_int m \<le> of_int (c * 2 ^ k)" using up by (simp only: of_int_le_iff)
  then have up': "real_of_int m / 2 ^ k \<le> of_int c"
    by (simp add: field_simps)
  have "of_int (- c * 2 ^ k) \<le> real_of_int m" using lo by (simp only: of_int_le_iff)
  then have lo': "- of_int c \<le> real_of_int m / 2 ^ k"
    by (simp add: field_simps)
  have c128: "real_of_int c < 2 ^ 128" using c24 by simp
  have "\<not> 2 ^ 128 \<le> real_of_int m / 2 ^ k" using up' c128 by linarith
  moreover have "\<not> real_of_int m / 2 ^ k \<le> - (2 ^ 128)" using lo' c128 by linarith
  moreover have "\<bar>real_of_int m / 2 ^ k\<bar> \<le> of_int c" using up' lo' by (simp add: abs_le_iff)
  ultimately show ?thesis
    using False by (simp add: f32_round_def Let_def k m_def [symmetric])
qed

section \<open>The statements of \<open>main\<close>, one by one\<close>

lemmas until_defs = until_context_def until_kernel_def until_buffers_def until_args_def
  until_profile_def until_finish_def

lemma config_args_eval:
  "config_args env =
     (if arg0_status env <s 0 \<or> arg1_status env <s 0 \<or> arg2_status env <s 0
      then ([ClSetKernelArg 0 Input_buffer, ClSetKernelArg 1 Bias_buffer,
             ClSetKernelArg 2 Output_buffer, Printf ''create kernel failed''], Some (Exit 1))
      else ([ClSetKernelArg 0 Input_buffer, ClSetKernelArg 1 Bias_buffer,
             ClSetKernelArg 2 Output_buffer], None))"
  by (simp add: config_args_def Let_def emit_def check_status_def or_sless_0)

lemma profile_kernel_eval:
  "profile_kernel env =
     (if enqueue_status env <s 0
      then ([ClEnqueueNDRangeKernel ARRAY_SIZE, ClWaitForEvents,
             Printf ''clEnqueueNDRangeKernel failed''], Some (Exit 1))
      else ([ClEnqueueNDRangeKernel ARRAY_SIZE, ClWaitForEvents,
             ClGetEventProfilingInfo CL_PROFILING_COMMAND_QUEUED,
             ClGetEventProfilingInfo CL_PROFILING_COMMAND_SUBMIT,
             ClGetEventProfilingInfo CL_PROFILING_COMMAND_START,
             ClGetEventProfilingInfo CL_PROFILING_COMMAND_END,
             Printf_profile (profiling env CL_PROFILING_COMMAND_QUEUED)
               (profiling env CL_PROFILING_COMMAND_START)
               (profiling env CL_PROFILING_COMMAND_SUBMIT)
               (profiling env CL_PROFILING_COMMAND_END)
               (f64_of_u64 (profiling env CL_PROFILING_COMMAND_END
                  - profiling env CL_PROFILING_COMMAND_START))], None))"
  by (simp add: profile_kernel_def Let_def emit_def check_status_def and_then_def)

lemma f64_of_u64_0: "f64_of_u64 0 = 0"
  by (simp add: f64_of_u64_def)

lemma body_at_args:
  "main_body = until_buffers @ config_args # [profile_kernel, read_output, finish_opencl, verify]"
  by (simp add: main_body_def until_defs)

lemma body_at_profile:
  "main_body = until_args @ profile_kernel # [read_output, finish_opencl, verify]"
  by (simp add: main_body_def until_defs)

lemmas stage_defs = start_timer_def init_device_eval create_context_def build_program_def
  create_queue_def create_kernel_def create_buffers_def read_output_def finish_opencl_def
  check_status_def emit_def and_then_def PROGRAM_FILE_def KERNEL_FUNC_def
  CL_DEVICE_NOT_FOUND_def word_sless_alt Let_def

section \<open>The host arrays and the checking loop\<close>

declare check_results.simps [simp del]

lemma f32_round_of_nat:
  assumes "n < 2 ^ 24"
  shows "f32_round (real n) = Finite (real n)"
proof -
  have "\<bar>int n\<bar> < 2 ^ 24" using assms by simp
  then have "f32_round (of_int (int n)) = Finite (of_int (int n))"
    by (rule f32_round_of_int)
  then show ?thesis by simp
qed

lemma input_data_nth:
  assumes "i < ARRAY_SIZE"
  shows "input_data ! i = Finite (real i)"
proof -
  have "i < 2 ^ 24" using assms by (simp add: ARRAY_SIZE_def)
  then have "f32_round (real i) = Finite (real i)" by (rule f32_round_of_nat)
  then show ?thesis
    using assms by (simp add: input_data_def f32_of_int_def)
qed

lemma bias_data_nth: "i < ARRAY_SIZE \<Longrightarrow> bias_data ! i = Finite 10000"
  by (simp add: bias_data_def)

lemma expected_nth:
  assumes "i < ARRAY_SIZE"
  shows "f32_add (bias_data ! i) (input_data ! i) = Finite (real i + 10000)"
proof -
  have "i + 10000 < 2 ^ 24" using assms by (simp add: ARRAY_SIZE_def)
  then have "f32_round (real (i + 10000)) = Finite (real (i + 10000))"
    by (rule f32_round_of_nat)
  then show ?thesis
    using assms by (simp add: input_data_nth bias_data_nth add.commute)
qed

lemma exceeds_tolerance_Finite:
  assumes "i < ARRAY_SIZE"
  shows "exceeds_tolerance output_data i =
           f32_gt_double (f32_abs (f32_sub (Finite (real i + 10000)) (output_data i))) 100000"
  using assms by (simp add: exceeds_tolerance_def expected_nth)

lemma within_tolerance:
  assumes "i < ARRAY_SIZE" and "output_data i = Finite y"
    and "\<bar>real i + 10000 - y\<bar> \<le> 100000"
  shows "\<not> exceeds_tolerance output_data i"
proof -
  have "\<bar>real i + 10000 - y\<bar> \<le> real_of_int 100000" using assms(3) by simp
  then obtain r where r: "f32_round (real i + 10000 - y) = Finite r" "\<bar>r\<bar> \<le> real_of_int 100000"
    using f32_round_bounded [of "real i + 10000 - y" 100000] by auto
  then show ?thesis
    using assms(1,2) by (simp add: exceeds_tolerance_Finite f32_sub_def)
qed

lemma check_results_pass:
  "(\<forall>j. i \<le> j \<and> j < ARRAY_SIZE \<longrightarrow> \<not> exceeds_tolerance output_data j)
   \<Longrightarrow> check_results output_data i = ([], None)"
proof (induction output_data i rule: check_results.induct)
  case (1 output_data i)
  show ?case
  proof (cases "i < ARRAY_SIZE")
    case True
    then have here: "\<not> exceeds_tolerance output_data i" using "1.prems" by simp
    have rest: "\<forall>j. Suc i \<le> j \<and> j < ARRAY_SIZE \<longrightarrow> \<not> exceeds_tolerance output_data j"
      using "1.prems" by (meson Suc_leD)
    have "check_results output_data (Suc i) = ([], None)"
      by (rule "1.IH" [OF True refl rest])
    then show ?thesis
      using True here
      by (subst check_results.simps) (simp add: exceeds_tolerance_def and_then_def emit_def)
  next
    case False
    then show ?thesis by (subst check_results.simps) simp
  qed
qed

lemma check_results_first:
  "i \<le> k \<Longrightarrow> k < ARRAY_SIZE \<Longrightarrow> exceeds_tolerance output_data k
   \<Longrightarrow> (\<forall>j. i \<le> j \<and> j < k \<longrightarrow> \<not> exceeds_tolerance output_data j)
   \<Longrightarrow> check_results output_data i =
         ([Printf_mismatch k (f32_add (bias_data ! k) (input_data ! k)) (output_data k),
           Printf ''CHECK RESULT FAILED''], Some (Exit 1))"
proof (induction output_data i rule: check_results.induct)
  case (1 output_data i)
  have i: "i < ARRAY_SIZE" using "1.prems" by simp
  show ?case
  proof (cases "i = k")
    case True
    then show ?thesis
      using "1.prems"
      by (subst check_results.simps)
         (simp add: exceeds_tolerance_def and_then_def emit_def check_status_def word_sless_alt)
  next
    case False
    then have lt: "i < k" using "1.prems" by simp
    then have here: "\<not> exceeds_tolerance output_data i" using "1.prems" by simp
    have "check_results output_data (Suc i) =
         ([Printf_mismatch k (f32_add (bias_data ! k) (input_data ! k)) (output_data k),
           Printf ''CHECK RESULT FAILED''], Some (Exit 1))"
    proof (rule "1.IH" [OF i refl])
      show "Suc i \<le> k" using lt by simp
      show "k < ARRAY_SIZE" using "1.prems" by simp
      show "exceeds_tolerance output_data k" using "1.prems" by simp
      show "\<forall>j. Suc i \<le> j \<and> j < k \<longrightarrow> \<not> exceeds_tolerance output_data j"
        using "1.prems" by (meson Suc_leD)
    qed
    then show ?thesis
      using i here
      by (subst check_results.simps) (simp add: exceeds_tolerance_def and_then_def emit_def)
  qed
qed


lemma body_at_verify: "main_body = until_finish @ [verify]"
  by (simp add: main_body_def until_defs)

lemma main_all_passed:
  assumes "snd (run_stages until_finish env) = None"
    and "\<forall>i<ARRAY_SIZE. \<not> exceeds_tolerance (device_output env) i"
  shows "main env =
           (fst (run_stages until_finish env) @ Printf ''ALL PASSED'' # Runtime_destructor, Exit 0)"
proof -
  have "check_results (device_output env) 0 = ([], None)"
    using assms(2) by (intro check_results_pass) simp
  then have "run_stages [verify] env = ([Printf ''ALL PASSED''], None)"
    by (simp add: verify_def and_then_def emit_def)
  then show ?thesis
    using main_split [OF body_at_verify assms(1)] by simp
qed

lemma main_first_mismatch:
  assumes "snd (run_stages until_finish env) = None"
    and "k < ARRAY_SIZE" and "exceeds_tolerance (device_output env) k"
    and "\<forall>j<k. \<not> exceeds_tolerance (device_output env) j"
  shows "main env =
           (fst (run_stages until_finish env)
            @ [Printf_mismatch k (f32_add (bias_data ! k) (input_data ! k)) (device_output env k),
               Printf ''CHECK RESULT FAILED''], Exit 1)"
proof -
  have "check_results (device_output env) 0 =
         ([Printf_mismatch k (f32_add (bias_data ! k) (input_data ! k)) (device_output env k),
           Printf ''CHECK RESULT FAILED''], Some (Exit 1))"
    using assms(2-4) by (intro check_results_first) simp_all
  then have "run_stages [verify] env =
         ([Printf_mismatch k (f32_add (bias_data ! k) (input_data ! k)) (device_output env k),
           Printf ''CHECK RESULT FAILED''], Some (Exit 1))"
    by (simp add: verify_def and_then_def)
  then show ?thesis
    using main_split [OF body_at_verify assms(1)] by simp
qed

lemma until_finish_device_output:
  "run_stages until_finish (env\<lparr>device_output := output_data\<rparr>) = run_stages until_finish env"
proof -
  let ?env = "env\<lparr>device_output := output_data\<rparr>"
  have "start_timer ?env = start_timer env" "init_device ?env = init_device env"
    "create_context ?env = create_context env"
    "build_program PROGRAM_FILE ?env = build_program PROGRAM_FILE env"
    "create_queue ?env = create_queue env" "create_kernel ?env = create_kernel env"
    "create_buffers ?env = create_buffers env" "config_args ?env = config_args env"
    "profile_kernel ?env = profile_kernel env" "read_output ?env = read_output env"
    "finish_opencl ?env = finish_opencl env"
    by (simp_all add: start_timer_def init_device_eval Let_def create_context_def
          build_program_def create_queue_def create_kernel_def create_buffers_def
          config_args_def profile_kernel_def read_output_def finish_opencl_def
          cong: option.case_cong)
  then show ?thesis by (simp add: until_defs)
qed

lemma exceeds_tolerance_integer:
  assumes "i < ARRAY_SIZE" and "output_data i = Finite (of_int n)" and "\<bar>n\<bar> < 2 ^ 23"
  shows "exceeds_tolerance output_data i \<longleftrightarrow> 100000 < \<bar>real i + 10000 - of_int n\<bar>"
proof -
  have "\<bar>int i + 10000 - n\<bar> < 2 ^ 24"
    using assms(1,3) by (simp add: ARRAY_SIZE_def)
  then have "f32_round (of_int (int i + 10000 - n)) = Finite (of_int (int i + 10000 - n))"
    by (rule f32_round_of_int)
  then have "f32_round (real i + 10000 - of_int n) = Finite (real i + 10000 - of_int n)"
    by simp
  then show ?thesis
    using assms(1,2) by (simp add: exceeds_tolerance_Finite f32_sub_def)
qed

lemma sums_within_tolerance:
  "\<forall>i<ARRAY_SIZE. \<not> exceeds_tolerance (\<lambda>i. Finite (real i + 10000)) i"
  by (simp add: within_tolerance)

lemma until_finish_all_succeed:
  "run_stages until_finish
     (all_succeed\<lparr>input_buffer_status := a, bias_buffer_status := b, finish_status := c,
                  device_output := output_data\<rparr>) =
     ([Gettimeofday, ClGetPlatformIDs, ClGetDeviceIDs CL_DEVICE_TYPE_GPU, ClCreateContext,
       Fopen ''add.cl'', ClCreateProgramWithSource ''kernel'', ClBuildProgram,
       ClCreateCommandQueue, ClCreateKernel ''add'', ClCreateBuffer Input_buffer,
       ClCreateBuffer Bias_buffer, ClCreateBuffer Output_buffer,
       ClSetKernelArg 0 Input_buffer, ClSetKernelArg 1 Bias_buffer,
       ClSetKernelArg 2 Output_buffer, ClEnqueueNDRangeKernel 100000, ClWaitForEvents,
       ClGetEventProfilingInfo CL_PROFILING_COMMAND_QUEUED,
       ClGetEventProfilingInfo CL_PROFILING_COMMAND_SUBMIT,
       ClGetEventProfilingInfo CL_PROFILING_COMMAND_START,
       ClGetEventProfilingInfo CL_PROFILING_COMMAND_END,
       Printf_profile 0 0 0 0 0, ClEnqueueReadBuffer Output_buffer, ClFinish, Gettimeofday,
       Printf_elapsed], None)"
  by (simp add: until_defs all_succeed_def stage_defs config_args_eval profile_kernel_eval
        f64_of_u64_0 ARRAY_SIZE_def)

lemma main_unchecked_statuses:
  assumes "\<forall>i<ARRAY_SIZE. \<not> exceeds_tolerance output_data i"
  shows "main (all_succeed\<lparr>input_buffer_status := a, bias_buffer_status := b,
                           finish_status := c, device_output := output_data\<rparr>) =
     ([Gettimeofday, ClGetPlatformIDs, ClGetDeviceIDs CL_DEVICE_TYPE_GPU, ClCreateContext,
       Fopen ''add.cl'', ClCreateProgramWithSource ''kernel'', ClBuildProgram,
       ClCreateCommandQueue, ClCreateKernel ''add'', ClCreateBuffer Input_buffer,
       ClCreateBuffer Bias_buffer, ClCreateBuffer Output_buffer,
       ClSetKernelArg 0 Input_buffer, ClSetKernelArg 1 Bias_buffer,
       ClSetKernelArg 2 Output_buffer, ClEnqueueNDRangeKernel 100000, ClWaitForEvents,
       ClGetEventProfilingInfo CL_PROFILING_COMMAND_QUEUED,
       ClGetEventProfilingInfo CL_PROFILING_COMMAND_SUBMIT,
       ClGetEventProfilingInfo CL_PROFILING_COMMAND_START,
       ClGetEventProfilingInfo CL_PROFILING_COMMAND_END,
       Printf_profile 0 0 0 0 0, ClEnqueueReadBuffer Output_buffer, ClFinish, Gettimeofday,
       Printf_elapsed, Printf ''ALL PASSED'', ClReleaseKernel, ClReleaseMemObject Input_buffer,
       ClReleaseMemObject Output_buffer, ClReleaseCommandQueue, ClReleaseProgram,
       ClReleaseContext], Exit 0)"
proof -
  let ?env = "all_succeed\<lparr>input_buffer_status := a, bias_buffer_status := b,
                           finish_status := c, device_output := output_data\<rparr>"
  have go: "snd (run_stages until_finish ?env) = None"
    by (simp only: until_finish_all_succeed snd_conv)
  have ok: "\<forall>i<ARRAY_SIZE. \<not> exceeds_tolerance (device_output ?env) i"
    using assms by simp
  show ?thesis
    using main_all_passed [OF go ok]
    by (simp only: until_finish_all_succeed fst_conv Runtime_destructor_def append.simps)
qed

lemma until_finish_output:
  "run_stages until_finish (all_succeed\<lparr>device_output := output_data\<rparr>) =
     ([Gettimeofday, ClGetPlatformIDs, ClGetDeviceIDs CL_DEVICE_TYPE_GPU, ClCreateContext,
       Fopen ''add.cl'', ClCreateProgramWithSource ''kernel'', ClBuildProgram,
       ClCreateCommandQueue, ClCreateKernel ''add'', ClCreateBuffer Input_buffer,
       ClCreateBuffer Bias_buffer, ClCreateBuffer Output_buffer,
       ClSetKernelArg 0 Input_buffer, ClSetKernelArg 1 Bias_buffer,
       ClSetKernelArg 2 Output_buffer, ClEnqueueNDRangeKernel 100000, ClWaitForEvents,
       ClGetEventProfilingInfo CL_PROFILING_COMMAND_QUEUED,
       ClGetEventProfilingInfo CL_PROFILING_COMMAND_SUBMIT,
       ClGetEventProfilingInfo CL_PROFILING_COMMAND_START,
       ClGetEventProfilingInfo CL_PROFILING_COMMAND_END,
       Printf_profile 0 0 0 0 0, ClEnqueueReadBuffer Output_buffer, ClFinish, Gettimeofday,
       Printf_elapsed], None)"
proof -
  have "all_succeed\<lparr>device_output := output_data\<rparr> =
        all_succeed\<lparr>input_buffer_status := 0, bias_buffer_status := 0,
          finish_status := 0, device_output := output_data\<rparr>"
    by (simp add: all_succeed_def)
  then show ?thesis
    using until_finish_all_succeed [where a = 0 and b = 0 and c = 0] by simp
qed

lemma events_and_then:
  "e \<notin> set (fst r) \<Longrightarrow> e \<notin> set (fst k) \<Longrightarrow> e \<notin> set (fst (and_then r k))"
  by (cases "snd r") (simp_all add: and_then_def emit_def)

lemma events_run_stages:
  "(\<forall>s\<in>set xs. e \<notin> set (fst (s env))) \<Longrightarrow> e \<notin> set (fst (run_stages xs env))"
  by (induction xs) (simp_all add: events_and_then)

lemma check_results_no_release:
  "ClReleaseMemObject m \<notin> set (fst (check_results output_data i))"
proof (induction output_data i rule: check_results.induct)
  case (1 output_data i)
  show ?case
  proof (cases "i < ARRAY_SIZE")
    case True
    then have "ClReleaseMemObject m \<notin> set (fst (check_results output_data (Suc i)))"
      by (rule "1.IH" [OF _ refl])
    then show ?thesis
      using True
      by (subst check_results.simps)
         (simp add: Let_def emit_def check_status_def and_then_def)
  next
    case False
    then show ?thesis by (subst check_results.simps) simp
  qed
qed

lemma verify_no_release: "ClReleaseMemObject m \<notin> set (fst (verify env))"
  unfolding verify_def by (rule events_and_then) (simp_all add: check_results_no_release)

lemma build_program_no_release:
  "ClReleaseMemObject m \<notin> set (fst (build_program filename env))"
  by (simp add: build_program_def emit_def check_status_def and_then_def split: option.splits)

lemma main_body_no_release:
  "\<forall>s\<in>set main_body. ClReleaseMemObject m \<notin> set (fst (s env))"
proof -
  have "ClReleaseMemObject m \<notin> set (fst (start_timer env))"
    "ClReleaseMemObject m \<notin> set (fst (init_device env))"
    "ClReleaseMemObject m \<notin> set (fst (create_context env))"
    "ClReleaseMemObject m \<notin> set (fst (create_queue env))"
    "ClReleaseMemObject m \<notin> set (fst (create_kernel env))"
    "ClReleaseMemObject m \<notin> set (fst (create_buffers env))"
    "ClReleaseMemObject m \<notin> set (fst (config_args env))"
    "ClReleaseMemObject m \<notin> set (fst (profile_kernel env))"
    "ClReleaseMemObject m \<notin> set (fst (read_output env))"
    "ClReleaseMemObject m \<notin> set (fst (finish_opencl env))"
    by (simp_all add: start_timer_def init_device_eval create_context_def
          create_queue_def create_kernel_def create_buffers_def
          config_args_eval profile_kernel_eval read_output_def finish_opencl_def
          check_status_def emit_def Let_def)
  then show ?thesis
    by (simp add: main_body_def verify_no_release build_program_no_release)
qed

lemma main_no_release_of_bias:
  "ClReleaseMemObject Bias_buffer \<notin> set (fst (main env))"
proof -
  have "ClReleaseMemObject Bias_buffer \<notin> set (fst (run_stages main_body env))"
    using main_body_no_release by (rule events_run_stages)
  then show ?thesis
    by (cases "run_stages main_body env")
       (auto simp: main_def Runtime_destructor_def split: option.splits)
qed

lemma f32_round_dyadic:
  assumes "\<bar>m\<bar> < 2 ^ 24" and "p \<le> 149"
  shows "f32_round (of_int m / 2 ^ p) = Finite (of_int m / 2 ^ p)"
proof (cases "m = 0")
  case True
  then show ?thesis by (simp add: f32_round_def)
next
  case False
  define x :: real where "x = of_int m / 2 ^ p"
  have x0: "x \<noteq> 0" using False by (simp add: x_def)
  have m24: "\<bar>real_of_int m\<bar> < 2 ^ 24"
    using assms(1) by (metis of_int_abs of_int_less_numeral_power_cancel_iff)
  have absx: "\<bar>x\<bar> = \<bar>real_of_int m\<bar> / 2 ^ p" by (simp add: x_def)
  have "\<bar>x\<bar> < 2 ^ 24 / 2 ^ p"
    unfolding absx using m24 by (simp add: divide_strict_right_mono)
  also have "(2::real) ^ 24 / 2 ^ p = 2 powr (24 - real p)"
    by (simp add: powr_diff powr_realpow)
  finally have "log 2 \<bar>x\<bar> < 24 - real p"
    using x0 by (simp add: log_less_iff)
  then have "\<lfloor>log 2 \<bar>x\<bar>\<rfloor> < 24 - int p"
    by (simp add: floor_less_iff)
  then have e: "f32_ulp_exponent x \<le> - int p"
    using assms(2) by (simp add: f32_ulp_exponent_def)
  define k where "k = nat (- f32_ulp_exponent x)"
  have kp: "p \<le> k" using e by (simp add: k_def)
  have "f32_ulp_exponent x \<le> 0" using e by simp
  then have pw: "(2::real) powr of_int (f32_ulp_exponent x) = 1 / 2 ^ k"
    by (simp add: k_def powr_real_of_int inverse_eq_divide)
  have "(2::real) ^ k = 2 ^ (k - p) * 2 ^ p"
    using kp by (simp flip: power_add)
  then have xk: "x * 2 ^ k = real_of_int m * 2 ^ (k - p)" by (simp add: x_def)
  then have "x * 2 ^ k = of_int (m * 2 ^ (k - p))" by simp
  then have r: "round_ties_even (x * 2 ^ k) = m * 2 ^ (k - p)"
    by (simp only: round_ties_even_of_int)
  have rt: "real_of_int m * 2 ^ (k - p) / 2 ^ k = x"
    unfolding xk [symmetric] by simp
  have "(1::real) \<le> 2 ^ p" by simp
  then have "\<bar>real_of_int m\<bar> * 1 \<le> \<bar>real_of_int m\<bar> * 2 ^ p"
    by (intro mult_left_mono) simp_all
  then have "\<bar>x\<bar> \<le> \<bar>real_of_int m\<bar>"
    unfolding absx by (simp add: field_simps)
  then have "\<bar>x\<bar> < 2 ^ 128" using m24 by simp
  then have "\<not> 2 ^ 128 \<le> x" and "\<not> x \<le> - (2 ^ 128)"
    by (simp_all add: abs_less_iff)
  then have "f32_round x = Finite x"
    using x0 by (simp add: f32_round_def Let_def pw r rt)
  then show ?thesis by (simp add: x_def)
qed

lemma exceeds_tolerance_dyadic:
  assumes "i < ARRAY_SIZE" and "output_data i = Finite y"
    and "real i + 10000 - y = of_int m / 2 ^ p" and "\<bar>m\<bar> < 2 ^ 24" and "p \<le> 149"
  shows "exceeds_tolerance output_data i \<longleftrightarrow> 100000 < \<bar>real i + 10000 - y\<bar>"
proof -
  have "f32_round (real i + 10000 - y) = Finite (real i + 10000 - y)"
    unfolding assms(3) using assms(4,5) by (rule f32_round_dyadic)
  then show ?thesis
    using assms(1,2) by (simp add: exceeds_tolerance_Finite f32_sub_def)
qed

lemma check_results_mismatch:
  "Printf_mismatch k e a \<in> set (fst (check_results output_data i))
   \<Longrightarrow> i \<le> k \<and> k < ARRAY_SIZE \<and> e = f32_add (bias_data ! k) (input_data ! k)
       \<and> a = output_data k \<and> exceeds_tolerance output_data k
       \<and> (\<forall>j. i \<le> j \<and> j < k \<longrightarrow> \<not> exceeds_tolerance output_data j)"
proof (induction output_data i rule: check_results.induct)
  case (1 output_data i)
  have i: "i < ARRAY_SIZE"
  proof (rule ccontr)
    assume "\<not> i < ARRAY_SIZE"
    then have "check_results output_data i = ([], None)"
      by (subst check_results.simps) simp
    then show False using "1.prems" by simp
  qed
  show ?case
  proof (cases "exceeds_tolerance output_data i")
    case True
    then have "check_results output_data i =
        ([Printf_mismatch i (f32_add (bias_data ! i) (input_data ! i)) (output_data i),
          Printf ''CHECK RESULT FAILED''], Some (Exit 1))"
      using i by (subst check_results.simps)
        (simp add: exceeds_tolerance_def and_then_def emit_def check_status_def word_sless_alt)
    then show ?thesis using "1.prems" True i by auto
  next
    case False
    then have "check_results output_data i = check_results output_data (Suc i)"
      using i by (subst check_results.simps)
        (simp add: exceeds_tolerance_def and_then_def emit_def)
    then have "Printf_mismatch k e a \<in> set (fst (check_results output_data (Suc i)))"
      using "1.prems" by simp
    then have ih: "Suc i \<le> k \<and> k < ARRAY_SIZE \<and> e = f32_add (bias_data ! k) (input_data ! k)
       \<and> a = output_data k \<and> exceeds_tolerance output_data k
       \<and> (\<forall>j. Suc i \<le> j \<and> j < k \<longrightarrow> \<not> exceeds_tolerance output_data j)"
      by (rule "1.IH" [OF i refl])
    have "\<not> exceeds_tolerance output_data j" if "i \<le> j" "j < k" for j
    proof (cases "j = i")
      case True
      then show ?thesis using False by simp
    next
      case False
      then have "Suc i \<le> j" using that by simp
      then show ?thesis using ih that by blast
    qed
    then show ?thesis using ih by auto
  qed
qed


lemma until_finish_no_mismatch:
  "Printf_mismatch k e a \<notin> set (fst (run_stages until_finish env))"
proof -
  have "Printf_mismatch k e a \<notin> set (fst (start_timer env))"
    "Printf_mismatch k e a \<notin> set (fst (init_device env))"
    "Printf_mismatch k e a \<notin> set (fst (create_context env))"
    "Printf_mismatch k e a \<notin> set (fst (create_queue env))"
    "Printf_mismatch k e a \<notin> set (fst (create_kernel env))"
    "Printf_mismatch k e a \<notin> set (fst (create_buffers env))"
    "Printf_mismatch k e a \<notin> set (fst (config_args env))"
    "Printf_mismatch k e a \<notin> set (fst (profile_kernel env))"
    "Printf_mismatch k e a \<notin> set (fst (read_output env))"
    "Printf_mismatch k e a \<notin> set (fst (finish_opencl env))"
    by (simp_all add: start_timer_def init_device_eval create_context_def
          create_queue_def create_kernel_def create_buffers_def
          config_args_eval profile_kernel_eval read_output_def finish_opencl_def
          check_status_def emit_def Let_def)
  moreover have "Printf_mismatch k e a \<notin> set (fst (build_program PROGRAM_FILE env))"
    by (simp add: build_program_def emit_def check_status_def and_then_def split: option.splits)
  ultimately have "\<forall>s\<in>set until_finish. Printf_mismatch k e a \<notin> set (fst (s env))"
    by (simp add: until_defs)
  then show ?thesis by (rule events_run_stages)
qed

lemma main_mismatch:
  assumes "Printf_mismatch k e a \<in> set (fst (main env))"
  shows "k < ARRAY_SIZE \<and> e = f32_add (bias_data ! k) (input_data ! k)
       \<and> a = device_output env k \<and> exceeds_tolerance (device_output env) k
       \<and> (\<forall>j<k. \<not> exceeds_tolerance (device_output env) j)"
proof -
  have "Printf_mismatch k e a \<in> set (fst (run_stages main_body env))"
    using assms
    by (cases "run_stages main_body env")
       (auto simp: main_def Runtime_destructor_def split: option.splits)
  then have "Printf_mismatch k e a \<in> set (fst (and_then (run_stages until_finish env)
               (run_stages [verify] env)))"
    by (simp only: body_at_verify run_stages_append)
  then have "Printf_mismatch k e a \<in> set (fst (run_stages [verify] env))"
    using until_finish_no_mismatch events_and_then by blast
  then have "Printf_mismatch k e a \<in> set (fst (verify env))"
    using events_and_then [of "Printf_mismatch k e a" "verify env" "([], None)"] by auto
  then have "Printf_mismatch k e a \<in> set (fst (check_results (device_output env) 0))"
    using events_and_then [of "Printf_mismatch k e a" "check_results (device_output env) 0"
            "([Printf ''ALL PASSED''], None)"]
    by (auto simp: verify_def)
  from check_results_mismatch [OF this] show ?thesis by simp
qed

section \<open>Device selection\<close>

text \<open>
  Claim C6. Once a platform has been obtained, \<open>init_device\<close> asks for a GPU first. It asks
  for a CPU if and only if the GPU enumeration returned \<open>CL_DEVICE_NOT_FOUND\<close>. Any other
  negative status of the GPU enumeration ends the process at once with "no devices found"
  and status 1, without a CPU enumeration; a negative status of the CPU enumeration ends it
  the same way.
\<close>

theorem device_selection:
  assumes "\<not> platform_status env <s 0"
  shows "(\<exists>rest. fst (main env) =
            Gettimeofday # ClGetPlatformIDs # ClGetDeviceIDs CL_DEVICE_TYPE_GPU # rest)
       \<and> (ClGetDeviceIDs CL_DEVICE_TYPE_CPU \<in> set (fst (init_device env))
            \<longleftrightarrow> gpu_status env = CL_DEVICE_NOT_FOUND)
       \<and> (gpu_status env \<noteq> CL_DEVICE_NOT_FOUND \<and> gpu_status env <s 0 \<longrightarrow>
            main env = ([Gettimeofday, ClGetPlatformIDs, ClGetDeviceIDs CL_DEVICE_TYPE_GPU,
                         Printf ''no devices found''], Exit 1))
       \<and> (gpu_status env = CL_DEVICE_NOT_FOUND \<and> cpu_status env <s 0 \<longrightarrow>
            main env = ([Gettimeofday, ClGetPlatformIDs, ClGetDeviceIDs CL_DEVICE_TYPE_GPU,
                         ClGetDeviceIDs CL_DEVICE_TYPE_CPU, Printf ''no devices found''], Exit 1))"
proof -
  have body: "main_body = [start_timer] @ init_device #
      [create_context, build_program PROGRAM_FILE, create_queue,
       create_kernel, create_buffers, config_args, profile_kernel, read_output,
       finish_opencl, verify]"
    by (simp add: main_body_def)
  have pre: "run_stages [start_timer] env = ([Gettimeofday], None)"
    by (simp add: start_timer_def and_then_def emit_def)
  then have go: "snd (run_stages [start_timer] env) = None" by simp
  obtain rest where "fst (main env) = fst (run_stages [start_timer] env) @ fst (init_device env) @ rest"
    using main_reaches [OF body go] by blast
  then have first: "\<exists>rest. fst (main env) =
            Gettimeofday # ClGetPlatformIDs # ClGetDeviceIDs CL_DEVICE_TYPE_GPU # rest"
    using assms by (simp add: start_timer_def and_then_def emit_def init_device_eval)
  have second: "ClGetDeviceIDs CL_DEVICE_TYPE_CPU \<in> set (fst (init_device env))
            \<longleftrightarrow> gpu_status env = CL_DEVICE_NOT_FOUND"
    using assms by (simp add: init_device_eval)
  have third: "main env = ([Gettimeofday, ClGetPlatformIDs, ClGetDeviceIDs CL_DEVICE_TYPE_GPU,
                         Printf ''no devices found''], Exit 1)"
    if "gpu_status env \<noteq> CL_DEVICE_NOT_FOUND \<and> gpu_status env <s 0"
  proof -
    have "snd (init_device env) = Some (Exit 1)"
      using assms that by (simp add: init_device_eval)
    from main_stops [OF body go this] show ?thesis
      using assms that by (simp add: start_timer_def and_then_def emit_def init_device_eval)
  qed
  have fourth: "main env = ([Gettimeofday, ClGetPlatformIDs, ClGetDeviceIDs CL_DEVICE_TYPE_GPU,
                         ClGetDeviceIDs CL_DEVICE_TYPE_CPU, Printf ''no devices found''], Exit 1)"
    if "gpu_status env = CL_DEVICE_NOT_FOUND \<and> cpu_status env <s 0"
  proof -
    have "snd (init_device env) = Some (Exit 1)"
      using assms that by (simp add: init_device_eval)
    from main_stops [OF body go this] show ?thesis
      using assms that by (simp add: start_timer_def and_then_def emit_def init_device_eval)
  qed
  show ?thesis using first second third fourth by blast
qed

theorem device_selection_witness:
  "\<not> platform_status (all_succeed\<lparr>gpu_status := - 30\<rparr>) <s 0
   \<and> main (all_succeed\<lparr>gpu_status := - 30\<rparr>) =
       ([Gettimeofday, ClGetPlatformIDs, ClGetDeviceIDs CL_DEVICE_TYPE_GPU,
         Printf ''no devices found''], Exit 1)
   \<and> main (all_succeed\<lparr>gpu_status := - 1, cpu_status := - 1\<rparr>) =
       ([Gettimeofday, ClGetPlatformIDs, ClGetDeviceIDs CL_DEVICE_TYPE_GPU,
         ClGetDeviceIDs CL_DEVICE_TYPE_CPU, Printf ''no devices found''], Exit 1)
   \<and> ClGetDeviceIDs CL_DEVICE_TYPE_CPU \<notin> set (fst (init_device all_succeed))"
  using device_selection [of "all_succeed\<lparr>gpu_status := - 30\<rparr>"]
        device_selection [of "all_succeed\<lparr>gpu_status := - 1, cpu_status := - 1\<rparr>"]
        device_selection [of all_succeed]
  by (simp add: all_succeed_def CL_DEVICE_NOT_FOUND_def word_sless_alt)

section \<open>Binding the kernel arguments\<close>

text \<open>
  Claim C7. When control arrives at the binding, \<open>main\<close> calls \<open>clSetKernelArg\<close> for slot 0
  with the input buffer, slot 1 with the bias buffer and slot 2 with the output buffer, in
  this order and whatever the three calls return. The three statuses are combined with
  bitwise or and checked once, after the third call: if any of them is negative the process
  ends there with status 1, and otherwise the next call is the kernel dispatch.
\<close>

theorem argument_binding:
  assumes "snd (run_stages until_buffers env) = None"
  shows "(\<exists>rest. fst (main env) =
            fst (run_stages until_buffers env)
            @ [ClSetKernelArg 0 Input_buffer, ClSetKernelArg 1 Bias_buffer,
               ClSetKernelArg 2 Output_buffer] @ rest)
       \<and> (arg0_status env <s 0 \<or> arg1_status env <s 0 \<or> arg2_status env <s 0 \<longrightarrow>
            main env =
              (fst (run_stages until_buffers env)
               @ [ClSetKernelArg 0 Input_buffer, ClSetKernelArg 1 Bias_buffer,
                  ClSetKernelArg 2 Output_buffer, Printf ''create kernel failed''], Exit 1))
       \<and> (\<not> (arg0_status env <s 0 \<or> arg1_status env <s 0 \<or> arg2_status env <s 0) \<longrightarrow>
            (\<exists>rest. fst (main env) =
               fst (run_stages until_buffers env)
               @ [ClSetKernelArg 0 Input_buffer, ClSetKernelArg 1 Bias_buffer,
                  ClSetKernelArg 2 Output_buffer, ClEnqueueNDRangeKernel ARRAY_SIZE]
               @ rest))"
proof -
  obtain rest where "fst (main env) = fst (run_stages until_buffers env) @ fst (config_args env) @ rest"
    using main_reaches [OF body_at_args assms] by blast
  then have first: "\<exists>rest. fst (main env) =
            fst (run_stages until_buffers env)
            @ [ClSetKernelArg 0 Input_buffer, ClSetKernelArg 1 Bias_buffer,
               ClSetKernelArg 2 Output_buffer] @ rest"
    by (simp add: config_args_eval)
  have second: "main env =
              (fst (run_stages until_buffers env)
               @ [ClSetKernelArg 0 Input_buffer, ClSetKernelArg 1 Bias_buffer,
                  ClSetKernelArg 2 Output_buffer, Printf ''create kernel failed''], Exit 1)"
    if neg: "arg0_status env <s 0 \<or> arg1_status env <s 0 \<or> arg2_status env <s 0"
  proof -
    have "snd (config_args env) = Some (Exit 1)"
      using neg by (simp add: config_args_eval)
    from main_stops [OF body_at_args assms this] show ?thesis
      using neg by (simp add: config_args_eval)
  qed
  have third: "\<exists>rest. fst (main env) =
               fst (run_stages until_buffers env)
               @ [ClSetKernelArg 0 Input_buffer, ClSetKernelArg 1 Bias_buffer,
                  ClSetKernelArg 2 Output_buffer, ClEnqueueNDRangeKernel ARRAY_SIZE]
               @ rest"
    if ok: "\<not> (arg0_status env <s 0 \<or> arg1_status env <s 0 \<or> arg2_status env <s 0)"
  proof -
    have c: "config_args env = ([ClSetKernelArg 0 Input_buffer, ClSetKernelArg 1 Bias_buffer,
             ClSetKernelArg 2 Output_buffer], None)"
      using ok by (simp add: config_args_eval)
    have run: "run_stages until_args env =
        (fst (run_stages until_buffers env) @ fst (config_args env), snd (config_args env))"
      unfolding until_args_def using assms by (rule run_stages_snoc)
    then have go: "snd (run_stages until_args env) = None" by (simp add: c)
    obtain rest where "fst (main env) =
        fst (run_stages until_args env) @ fst (profile_kernel env) @ rest"
      using main_reaches [OF body_at_profile go] by blast
    then show ?thesis
      by (cases "enqueue_status env <s 0") (simp_all add: run c profile_kernel_eval)
  qed
  show ?thesis using first second third by blast
qed

theorem argument_binding_witness:
  "snd (run_stages until_buffers (all_succeed\<lparr>arg0_status := - 5\<rparr>)) = None
   \<and> main (all_succeed\<lparr>arg0_status := - 5\<rparr>) =
       ([Gettimeofday, ClGetPlatformIDs, ClGetDeviceIDs CL_DEVICE_TYPE_GPU, ClCreateContext,
         Fopen ''add.cl'', ClCreateProgramWithSource ''kernel'', ClBuildProgram,
         ClCreateCommandQueue, ClCreateKernel ''add'', ClCreateBuffer Input_buffer,
         ClCreateBuffer Bias_buffer, ClCreateBuffer Output_buffer,
         ClSetKernelArg 0 Input_buffer, ClSetKernelArg 1 Bias_buffer,
         ClSetKernelArg 2 Output_buffer, Printf ''create kernel failed''], Exit 1)"
proof -
  have h: "snd (run_stages until_buffers (all_succeed\<lparr>arg0_status := - 5\<rparr>)) = None"
    by (simp add: until_defs all_succeed_def stage_defs)
  show ?thesis
    using h argument_binding [OF h]
    by (simp add: until_defs all_succeed_def stage_defs)
qed

section \<open>Dispatch, wait, check\<close>

text \<open>
  Claim C8. When control arrives at the dispatch, \<open>main\<close> submits the kernel and then waits
  on the event, whatever the submission returned. Only then is the submission status
  checked: a negative one ends the process with status 1 after the wait. Otherwise the four
  timestamps are read next, in the order queued, submit, start, end.
\<close>

theorem dispatch_then_wait_then_check:
  assumes "snd (run_stages until_args env) = None"
  shows "(\<exists>rest. fst (main env) =
            fst (run_stages until_args env)
            @ [ClEnqueueNDRangeKernel ARRAY_SIZE, ClWaitForEvents] @ rest)
       \<and> (enqueue_status env <s 0 \<longrightarrow>
            main env =
              (fst (run_stages until_args env)
               @ [ClEnqueueNDRangeKernel ARRAY_SIZE, ClWaitForEvents,
                  Printf ''clEnqueueNDRangeKernel failed''], Exit 1))
       \<and> (\<not> enqueue_status env <s 0 \<longrightarrow>
            (\<exists>rest. fst (main env) =
               fst (run_stages until_args env)
               @ [ClEnqueueNDRangeKernel ARRAY_SIZE, ClWaitForEvents,
                  ClGetEventProfilingInfo CL_PROFILING_COMMAND_QUEUED,
                  ClGetEventProfilingInfo CL_PROFILING_COMMAND_SUBMIT,
                  ClGetEventProfilingInfo CL_PROFILING_COMMAND_START,
                  ClGetEventProfilingInfo CL_PROFILING_COMMAND_END]
               @ rest))"
proof -
  obtain rest where r: "fst (main env) =
      fst (run_stages until_args env) @ fst (profile_kernel env) @ rest"
    using main_reaches [OF body_at_profile assms] by blast
  have first: "\<exists>rest. fst (main env) =
            fst (run_stages until_args env)
            @ [ClEnqueueNDRangeKernel ARRAY_SIZE, ClWaitForEvents] @ rest"
    using r by (cases "enqueue_status env <s 0") (simp_all add: profile_kernel_eval)
  have second: "main env =
              (fst (run_stages until_args env)
               @ [ClEnqueueNDRangeKernel ARRAY_SIZE, ClWaitForEvents,
                  Printf ''clEnqueueNDRangeKernel failed''], Exit 1)"
    if neg: "enqueue_status env <s 0"
  proof -
    have "snd (profile_kernel env) = Some (Exit 1)"
      using neg by (simp add: profile_kernel_eval)
    from main_stops [OF body_at_profile assms this] show ?thesis
      using neg by (simp add: profile_kernel_eval)
  qed
  have third: "\<exists>rest. fst (main env) =
               fst (run_stages until_args env)
               @ [ClEnqueueNDRangeKernel ARRAY_SIZE, ClWaitForEvents,
                  ClGetEventProfilingInfo CL_PROFILING_COMMAND_QUEUED,
                  ClGetEventProfilingInfo CL_PROFILING_COMMAND_SUBMIT,
                  ClGetEventProfilingInfo CL_PROFILING_COMMAND_START,
                  ClGetEventProfilingInfo CL_PROFILING_COMMAND_END]
               @ rest"
    if "\<not> enqueue_status env <s 0"
    using r that by (simp add: profile_kernel_eval)
  show ?thesis using first second third by blast
qed

theorem dispatch_then_wait_then_check_witness:
  "snd (run_stages until_args (all_succeed\<lparr>enqueue_status := - 5\<rparr>)) = None
   \<and> main (all_succeed\<lparr>enqueue_status := - 5\<rparr>) =
       ([Gettimeofday, ClGetPlatformIDs, ClGetDeviceIDs CL_DEVICE_TYPE_GPU, ClCreateContext,
         Fopen ''add.cl'', ClCreateProgramWithSource ''kernel'', ClBuildProgram,
         ClCreateCommandQueue, ClCreateKernel ''add'', ClCreateBuffer Input_buffer,
         ClCreateBuffer Bias_buffer, ClCreateBuffer Output_buffer,
         ClSetKernelArg 0 Input_buffer, ClSetKernelArg 1 Bias_buffer,
         ClSetKernelArg 2 Output_buffer, ClEnqueueNDRangeKernel 100000, ClWaitForEvents,
         Printf ''clEnqueueNDRangeKernel failed''], Exit 1)"
proof -
  have h: "snd (run_stages until_args (all_succeed\<lparr>enqueue_status := - 5\<rparr>)) = None"
    by (simp add: until_defs all_succeed_def stage_defs config_args_eval)
  show ?thesis
    using h dispatch_then_wait_then_check [OF h]
    by (simp add: until_defs all_succeed_def stage_defs config_args_eval ARRAY_SIZE_def)
qed

section \<open>The host arrays\<close>

text \<open>
  Claim C9. Both host arrays have 100000 elements; for every index \<open>i\<close> below 100000,
  \<open>input_data[i]\<close> is the \<open>float\<close> \<open>i\<close>, \<open>bias_data[i]\<close> is 10000, and the single-precision
  sum \<open>bias_data[i] + input_data[i]\<close> is the exact value \<open>i + 10000\<close>: neither the
  conversion of \<open>i\<close> nor the addition rounds.
\<close>

theorem host_arrays_exact:
  "length input_data = 100000 \<and> length bias_data = 100000
   \<and> (\<forall>i<100000. input_data ! i = Finite (real i) \<and> bias_data ! i = Finite 10000
         \<and> f32_add (bias_data ! i) (input_data ! i) = Finite (real i + 10000))"
proof -
  have "length input_data = 100000" "length bias_data = 100000"
    by (simp_all add: input_data_def bias_data_def ARRAY_SIZE_def)
  moreover have "input_data ! i = Finite (real i) \<and> bias_data ! i = Finite 10000
         \<and> f32_add (bias_data ! i) (input_data ! i) = Finite (real i + 10000)"
    if "i < 100000" for i
  proof -
    have "i < ARRAY_SIZE" using that by (simp add: ARRAY_SIZE_def)
    then show ?thesis
      using input_data_nth [of i] bias_data_nth [of i] expected_nth [of i] by blast
  qed
  ultimately show ?thesis by blast
qed

theorem host_arrays_exact_witness:
  "(7::nat) < 100000 \<and> input_data ! 7 = Finite 7 \<and> bias_data ! 7 = Finite 10000
   \<and> f32_add (bias_data ! 7) (input_data ! 7) = Finite 10007"
proof -
  have lt: "(7::nat) < 100000" by simp
  have "\<forall>i<100000. input_data ! i = Finite (real i) \<and> bias_data ! i = Finite 10000
         \<and> f32_add (bias_data ! i) (input_data ! i) = Finite (real i + 10000)"
    using host_arrays_exact by blast
  with lt have c: "input_data ! 7 = Finite (real 7) \<and> bias_data ! 7 = Finite 10000
         \<and> f32_add (bias_data ! 7) (input_data ! 7) = Finite (real 7 + 10000)"
    by blast
  have r: "real 7 = 7" "(7::real) + 10000 = 10007" by simp_all
  show ?thesis using lt c unfolding r by blast
qed

section \<open>Checking the result\<close>

text \<open>
  Claim C1. When control arrives at the checking loop, the loop runs over the indices below
  100000, computing \<open>bias_data[i] + input_data[i]\<close> and comparing its absolute difference
  from \<open>output_data[i]\<close> with the tolerance. At the first index \<open>k\<close> whose difference exceeds
  the tolerance the program prints \<open>k\<close>, the expected and the actual value, then
  "CHECK RESULT FAILED", and ends with status 1; what the device returned at later indices
  has no effect on the run. If no index exceeds the tolerance, the program prints
  "ALL PASSED", returns from \<open>main\<close> and ends with status 0.
\<close>

theorem result_verification:
  assumes "snd (run_stages until_finish env) = None"
  shows "ARRAY_SIZE = 100000
       \<and> (\<forall>k<ARRAY_SIZE.
            exceeds_tolerance (device_output env) k
            \<and> (\<forall>j<k. \<not> exceeds_tolerance (device_output env) j) \<longrightarrow>
            main env =
              (fst (run_stages until_finish env)
               @ [Printf_mismatch k (f32_add (bias_data ! k) (input_data ! k))
                    (device_output env k),
                  Printf ''CHECK RESULT FAILED''], Exit 1)
            \<and> (\<forall>later. main (env\<lparr>device_output :=
                                 \<lambda>j. if j \<le> k then device_output env j else later j\<rparr>)
                        = main env))
       \<and> ((\<forall>i<ARRAY_SIZE. \<not> exceeds_tolerance (device_output env) i) \<longrightarrow>
            main env =
              (fst (run_stages until_finish env) @ Printf ''ALL PASSED'' # Runtime_destructor,
               Exit 0))"
proof -
  have stop: "main env =
              (fst (run_stages until_finish env)
               @ [Printf_mismatch k (f32_add (bias_data ! k) (input_data ! k))
                    (device_output env k),
                  Printf ''CHECK RESULT FAILED''], Exit 1)
            \<and> (\<forall>later. main (env\<lparr>device_output :=
                                 \<lambda>j. if j \<le> k then device_output env j else later j\<rparr>)
                        = main env)"
    if k: "k < ARRAY_SIZE" "exceeds_tolerance (device_output env) k"
          "\<forall>j<k. \<not> exceeds_tolerance (device_output env) j" for k
  proof -
    have m: "main env =
              (fst (run_stages until_finish env)
               @ [Printf_mismatch k (f32_add (bias_data ! k) (input_data ! k))
                    (device_output env k),
                  Printf ''CHECK RESULT FAILED''], Exit 1)"
      using assms k by (rule main_first_mismatch)
    have "main (env\<lparr>device_output := \<lambda>j. if j \<le> k then device_output env j else later j\<rparr>)
            = main env" for later
    proof -
      let ?env = "env\<lparr>device_output := \<lambda>j. if j \<le> k then device_output env j else later j\<rparr>"
      have a: "snd (run_stages until_finish ?env) = None"
        using assms by (simp only: until_finish_device_output)
      have b: "exceeds_tolerance (device_output ?env) k"
        using k(2) by (simp add: exceeds_tolerance_def)
      have c: "\<forall>j<k. \<not> exceeds_tolerance (device_output ?env) j"
        using k(3) by (simp add: exceeds_tolerance_def)
      have "main ?env =
              (fst (run_stages until_finish ?env)
               @ [Printf_mismatch k (f32_add (bias_data ! k) (input_data ! k))
                    (device_output ?env k),
                  Printf ''CHECK RESULT FAILED''], Exit 1)"
        using a k(1) b c by (rule main_first_mismatch)
      then show ?thesis
        by (simp add: m until_finish_device_output)
    qed
    then show ?thesis using m by blast
  qed
  have pass: "main env =
              (fst (run_stages until_finish env) @ Printf ''ALL PASSED'' # Runtime_destructor,
               Exit 0)"
    if "\<forall>i<ARRAY_SIZE. \<not> exceeds_tolerance (device_output env) i"
    using assms that by (rule main_all_passed)
  show ?thesis using stop pass by (simp add: ARRAY_SIZE_def)
qed

theorem result_verification_witness:
  "snd (run_stages until_finish (all_succeed\<lparr>device_output := \<lambda>i. Finite (- 100000)\<rparr>)) = None
   \<and> main (all_succeed\<lparr>device_output := \<lambda>i. Finite (- 100000)\<rparr>) =
     ([Gettimeofday, ClGetPlatformIDs, ClGetDeviceIDs CL_DEVICE_TYPE_GPU, ClCreateContext,
       Fopen ''add.cl'', ClCreateProgramWithSource ''kernel'', ClBuildProgram,
       ClCreateCommandQueue, ClCreateKernel ''add'', ClCreateBuffer Input_buffer,
       ClCreateBuffer Bias_buffer, ClCreateBuffer Output_buffer,
       ClSetKernelArg 0 Input_buffer, ClSetKernelArg 1 Bias_buffer,
       ClSetKernelArg 2 Output_buffer, ClEnqueueNDRangeKernel 100000, ClWaitForEvents,
       ClGetEventProfilingInfo CL_PROFILING_COMMAND_QUEUED,
       ClGetEventProfilingInfo CL_PROFILING_COMMAND_SUBMIT,
       ClGetEventProfilingInfo CL_PROFILING_COMMAND_START,
       ClGetEventProfilingInfo CL_PROFILING_COMMAND_END,
       Printf_profile 0 0 0 0 0, ClEnqueueReadBuffer Output_buffer, ClFinish, Gettimeofday,
       Printf_elapsed,
       Printf_mismatch 0 (Finite 10000) (Finite (- 100000)),
       Printf ''CHECK RESULT FAILED''], Exit 1)
   \<and> main (all_succeed\<lparr>device_output := \<lambda>i. Finite (real i + 10000)\<rparr>) =
     ([Gettimeofday, ClGetPlatformIDs, ClGetDeviceIDs CL_DEVICE_TYPE_GPU, ClCreateContext,
       Fopen ''add.cl'', ClCreateProgramWithSource ''kernel'', ClBuildProgram,
       ClCreateCommandQueue, ClCreateKernel ''add'', ClCreateBuffer Input_buffer,
       ClCreateBuffer Bias_buffer, ClCreateBuffer Output_buffer,
       ClSetKernelArg 0 Input_buffer, ClSetKernelArg 1 Bias_buffer,
       ClSetKernelArg 2 Output_buffer, ClEnqueueNDRangeKernel 100000, ClWaitForEvents,
       ClGetEventProfilingInfo CL_PROFILING_COMMAND_QUEUED,
       ClGetEventProfilingInfo CL_PROFILING_COMMAND_SUBMIT,
       ClGetEventProfilingInfo CL_PROFILING_COMMAND_START,
       ClGetEventProfilingInfo CL_PROFILING_COMMAND_END,
       Printf_profile 0 0 0 0 0, ClEnqueueReadBuffer Output_buffer, ClFinish, Gettimeofday,
       Printf_elapsed, Printf ''ALL PASSED'', ClReleaseKernel, ClReleaseMemObject Input_buffer,
       ClReleaseMemObject Output_buffer, ClReleaseCommandQueue, ClReleaseProgram,
       ClReleaseContext], Exit 0)"
proof -
  let ?bad = "all_succeed\<lparr>device_output := \<lambda>i. Finite (- 100000)\<rparr>"
  let ?good = "all_succeed\<lparr>device_output := \<lambda>i. Finite (real i + 10000)\<rparr>"
  have go_bad: "snd (run_stages until_finish ?bad) = None"
    by (simp only: until_finish_output snd_conv)
  have go_good: "snd (run_stages until_finish ?good) = None"
    by (simp only: until_finish_output snd_conv)
  have zero: "(0::nat) < ARRAY_SIZE" by (simp add: ARRAY_SIZE_def)
  have "exceeds_tolerance (\<lambda>i. Finite (- 100000)) 0"
    using exceeds_tolerance_integer [of 0 "\<lambda>i. Finite (- 100000)" "- 100000"] zero by simp
  then have first: "exceeds_tolerance (device_output ?bad) 0
      \<and> (\<forall>j<0. \<not> exceeds_tolerance (device_output ?bad) j)"
    by simp
  have pass: "\<forall>i<ARRAY_SIZE. \<not> exceeds_tolerance (device_output ?good) i"
    using sums_within_tolerance by simp
  have "main ?bad =
      (fst (run_stages until_finish ?bad)
       @ [Printf_mismatch 0 (f32_add (bias_data ! 0) (input_data ! 0)) (device_output ?bad 0),
          Printf ''CHECK RESULT FAILED''], Exit 1)"
    using result_verification [OF go_bad] zero first by blast
  moreover have "main ?good =
      (fst (run_stages until_finish ?good) @ Printf ''ALL PASSED'' # Runtime_destructor, Exit 0)"
    using result_verification [OF go_good] pass by blast
  ultimately show ?thesis
    using go_bad zero
    by (simp add: until_finish_output expected_nth Runtime_destructor_def del: f32_add.simps)
qed

section \<open>The tolerance\<close>

text \<open>
  Claim C10. The tolerance of the checking loop is 100000. In a run that arrives at the
  loop, \<open>main\<close> prints a mismatch line for index \<open>k\<close> only when the exact distance of a finite
  read-back value from \<open>k + 10000\<close> exceeds 100000, and the expected value it prints is
  \<open>k + 10000\<close>. Conversely, the first index whose distance exceeds 100000 is reported and
  ends the run with status 1 (here for every distance that single precision represents
  exactly: \<open>m / 2\<^sup>p\<close> with \<open>m\<close> below \<open>2\<^sup>2\<^sup>4\<close>), and a run whose distances are all at most 100000
  prints "ALL PASSED" and ends with status 0. Every expected value lies between 10000 and
  109999, so a run in which the device returns 0 at every index up to 90000 and the sums
  above them passes, while a 0 at index 90001 is reported.
\<close>

theorem tolerance_1e5:
  assumes "snd (run_stages until_finish env) = None"
  shows "(\<forall>k e a. Printf_mismatch k e a \<in> set (fst (main env)) \<longrightarrow>
            k < ARRAY_SIZE \<and> e = Finite (real k + 10000) \<and> a = device_output env k
            \<and> (\<forall>y. a = Finite y \<longrightarrow> 100000 < \<bar>real k + 10000 - y\<bar>))
       \<and> (\<forall>k<ARRAY_SIZE. \<forall>y m p.
            device_output env k = Finite y
            \<and> real k + 10000 - y = of_int m / 2 ^ p \<and> \<bar>m\<bar> < 2 ^ 24 \<and> p \<le> 149
            \<and> 100000 < \<bar>real k + 10000 - y\<bar>
            \<and> (\<forall>j<k. \<exists>z. device_output env j = Finite z \<and> \<bar>real j + 10000 - z\<bar> \<le> 100000)
            \<longrightarrow> main env =
                  (fst (run_stages until_finish env)
                   @ [Printf_mismatch k (Finite (real k + 10000)) (Finite y),
                      Printf ''CHECK RESULT FAILED''], Exit 1))
       \<and> ((\<forall>i<ARRAY_SIZE. \<exists>z. device_output env i = Finite z
                \<and> \<bar>real i + 10000 - z\<bar> \<le> 100000)
            \<longrightarrow> main env =
                  (fst (run_stages until_finish env)
                   @ Printf ''ALL PASSED'' # Runtime_destructor, Exit 0))
       \<and> (\<forall>i<ARRAY_SIZE. f32_add (bias_data ! i) (input_data ! i) = Finite (real i + 10000)
            \<and> 10000 \<le> real i + 10000 \<and> real i + 10000 \<le> 109999)
       \<and> ((\<forall>i\<le>90000. device_output env i = Finite 0)
            \<and> (\<forall>i. 90000 < i \<and> i < ARRAY_SIZE
                  \<longrightarrow> device_output env i = Finite (real i + 10000))
            \<longrightarrow> main env =
                  (fst (run_stages until_finish env)
                   @ Printf ''ALL PASSED'' # Runtime_destructor, Exit 0))
       \<and> ((\<forall>i\<le>90001. device_output env i = Finite 0)
            \<longrightarrow> main env =
                  (fst (run_stages until_finish env)
                   @ [Printf_mismatch 90001 (Finite 100001) (Finite 0),
                      Printf ''CHECK RESULT FAILED''], Exit 1))"
proof -
  let ?out = "device_output env"
  let ?pre = "fst (run_stages until_finish env)"
  have only: "k < ARRAY_SIZE \<and> e = Finite (real k + 10000) \<and> a = ?out k
            \<and> (\<forall>y. a = Finite y \<longrightarrow> 100000 < \<bar>real k + 10000 - y\<bar>)"
    if "Printf_mismatch k e a \<in> set (fst (main env))" for k e a
  proof -
    from main_mismatch [OF that]
    have k: "k < ARRAY_SIZE" and e: "e = f32_add (bias_data ! k) (input_data ! k)"
      and a: "a = ?out k" and x: "exceeds_tolerance ?out k"
      by simp_all
    have "100000 < \<bar>real k + 10000 - y\<bar>" if "a = Finite y" for y
      using within_tolerance [of k ?out y] k x a that by fastforce
    then show ?thesis using k e a by (simp add: expected_nth)
  qed
  have passes: "\<not> exceeds_tolerance ?out j"
    if "j < ARRAY_SIZE" "\<exists>z. ?out j = Finite z \<and> \<bar>real j + 10000 - z\<bar> \<le> 100000" for j
    using that within_tolerance [of j ?out] by blast
  have stop: "main env =
         (?pre @ [Printf_mismatch k (Finite (real k + 10000)) (Finite y),
                  Printf ''CHECK RESULT FAILED''], Exit 1)"
    if k: "k < ARRAY_SIZE" and y: "?out k = Finite y"
      and d: "real k + 10000 - y = of_int m / 2 ^ p" "\<bar>m\<bar> < 2 ^ 24" "p \<le> 149"
      and far: "100000 < \<bar>real k + 10000 - y\<bar>"
      and before: "\<forall>j<k. \<exists>z. ?out j = Finite z \<and> \<bar>real j + 10000 - z\<bar> \<le> 100000"
    for k y m p
  proof -
    have "exceeds_tolerance ?out k \<longleftrightarrow> 100000 < \<bar>real k + 10000 - y\<bar>"
      by (rule exceeds_tolerance_dyadic [of k ?out y m p, OF k y d])
    then have x: "exceeds_tolerance ?out k" using far by simp
    have "\<forall>j<k. \<not> exceeds_tolerance ?out j"
      using before k passes by (meson less_trans)
    from main_first_mismatch [OF assms k x this] show ?thesis
      using k y by (simp add: expected_nth)
  qed
  have pass: "main env = (?pre @ Printf ''ALL PASSED'' # Runtime_destructor, Exit 0)"
    if "\<forall>i<ARRAY_SIZE. \<exists>z. ?out i = Finite z \<and> \<bar>real i + 10000 - z\<bar> \<le> 100000"
    using assms that passes by (intro main_all_passed) blast+
  have range: "f32_add (bias_data ! i) (input_data ! i) = Finite (real i + 10000)
        \<and> 10000 \<le> real i + 10000 \<and> real i + 10000 \<le> 109999"
    if "i < ARRAY_SIZE" for i
    using that by (simp add: expected_nth) (simp add: ARRAY_SIZE_def)
  have zeros_pass: "main env = (?pre @ Printf ''ALL PASSED'' # Runtime_destructor, Exit 0)"
    if low: "\<forall>i\<le>90000. ?out i = Finite 0"
      and high: "\<forall>i. 90000 < i \<and> i < ARRAY_SIZE \<longrightarrow> ?out i = Finite (real i + 10000)"
  proof (rule pass, intro allI impI)
    fix i assume i: "i < ARRAY_SIZE"
    show "\<exists>z. ?out i = Finite z \<and> \<bar>real i + 10000 - z\<bar> \<le> 100000"
    proof (cases "i \<le> 90000")
      case True
      then show ?thesis using low by simp
    next
      case False
      then show ?thesis using high i by simp
    qed
  qed
  have zero_fails: "main env =
         (?pre @ [Printf_mismatch 90001 (Finite 100001) (Finite 0),
                  Printf ''CHECK RESULT FAILED''], Exit 1)"
    if z: "\<forall>i\<le>90001. ?out i = Finite 0"
  proof -
    have k: "(90001::nat) < ARRAY_SIZE" by (simp add: ARRAY_SIZE_def)
    have y: "?out 90001 = Finite 0" using z by simp
    have d: "real 90001 + 10000 - 0 = of_int 100001 / 2 ^ 0" by simp
    have before: "\<forall>j<90001. \<exists>w. ?out j = Finite w \<and> \<bar>real j + 10000 - w\<bar> \<le> 100000"
      using z by simp
    have m: "\<bar>100001::int\<bar> < 2 ^ 24" and p: "(0::nat) \<le> 149"
      and far: "100000 < \<bar>real 90001 + 10000 - 0\<bar>"
      by simp_all
    from stop [of 90001 0 100001 0, OF k y d m p far before] show ?thesis by simp
  qed
  show ?thesis using only stop pass range zeros_pass zero_fails by blast
qed


theorem tolerance_1e5_witness:
  "snd (run_stages until_finish (all_succeed\<lparr>device_output := \<lambda>i. Finite 0\<rparr>)) = None
   \<and> main (all_succeed\<lparr>device_output := \<lambda>i. Finite 0\<rparr>) =
     ([Gettimeofday, ClGetPlatformIDs, ClGetDeviceIDs CL_DEVICE_TYPE_GPU, ClCreateContext,
       Fopen ''add.cl'', ClCreateProgramWithSource ''kernel'', ClBuildProgram,
       ClCreateCommandQueue, ClCreateKernel ''add'', ClCreateBuffer Input_buffer,
       ClCreateBuffer Bias_buffer, ClCreateBuffer Output_buffer,
       ClSetKernelArg 0 Input_buffer, ClSetKernelArg 1 Bias_buffer,
       ClSetKernelArg 2 Output_buffer, ClEnqueueNDRangeKernel 100000, ClWaitForEvents,
       ClGetEventProfilingInfo CL_PROFILING_COMMAND_QUEUED,
       ClGetEventProfilingInfo CL_PROFILING_COMMAND_SUBMIT,
       ClGetEventProfilingInfo CL_PROFILING_COMMAND_START,
       ClGetEventProfilingInfo CL_PROFILING_COMMAND_END,
       Printf_profile 0 0 0 0 0, ClEnqueueReadBuffer Output_buffer, ClFinish, Gettimeofday,
       Printf_elapsed,
       Printf_mismatch 90001 (Finite 100001) (Finite 0),
       Printf ''CHECK RESULT FAILED''], Exit 1)
   \<and> (100000::real) < \<bar>real 90001 + 10000 - 0\<bar>
   \<and> main (all_succeed\<lparr>device_output :=
              \<lambda>i. if i \<le> 90000 then Finite 0 else Finite (real i + 10000)\<rparr>) =
     ([Gettimeofday, ClGetPlatformIDs, ClGetDeviceIDs CL_DEVICE_TYPE_GPU, ClCreateContext,
       Fopen ''add.cl'', ClCreateProgramWithSource ''kernel'', ClBuildProgram,
       ClCreateCommandQueue, ClCreateKernel ''add'', ClCreateBuffer Input_buffer,
       ClCreateBuffer Bias_buffer, ClCreateBuffer Output_buffer,
       ClSetKernelArg 0 Input_buffer, ClSetKernelArg 1 Bias_buffer,
       ClSetKernelArg 2 Output_buffer, ClEnqueueNDRangeKernel 100000, ClWaitForEvents,
       ClGetEventProfilingInfo CL_PROFILING_COMMAND_QUEUED,
       ClGetEventProfilingInfo CL_PROFILING_COMMAND_SUBMIT,
       ClGetEventProfilingInfo CL_PROFILING_COMMAND_START,
       ClGetEventProfilingInfo CL_PROFILING_COMMAND_END,
       Printf_profile 0 0 0 0 0, ClEnqueueReadBuffer Output_buffer, ClFinish, Gettimeofday,
       Printf_elapsed, Printf ''ALL PASSED'', ClReleaseKernel, ClReleaseMemObject Input_buffer,
       ClReleaseMemObject Output_buffer, ClReleaseCommandQueue, ClReleaseProgram,
       ClReleaseContext], Exit 0)
   \<and> main (all_succeed\<lparr>device_output := \<lambda>i. Finite (real i - 90000)\<rparr>) =
     ([Gettimeofday, ClGetPlatformIDs, ClGetDeviceIDs CL_DEVICE_TYPE_GPU, ClCreateContext,
       Fopen ''add.cl'', ClCreateProgramWithSource ''kernel'', ClBuildProgram,
       ClCreateCommandQueue, ClCreateKernel ''add'', ClCreateBuffer Input_buffer,
       ClCreateBuffer Bias_buffer, ClCreateBuffer Output_buffer,
       ClSetKernelArg 0 Input_buffer, ClSetKernelArg 1 Bias_buffer,
       ClSetKernelArg 2 Output_buffer, ClEnqueueNDRangeKernel 100000, ClWaitForEvents,
       ClGetEventProfilingInfo CL_PROFILING_COMMAND_QUEUED,
       ClGetEventProfilingInfo CL_PROFILING_COMMAND_SUBMIT,
       ClGetEventProfilingInfo CL_PROFILING_COMMAND_START,
       ClGetEventProfilingInfo CL_PROFILING_COMMAND_END,
       Printf_profile 0 0 0 0 0, ClEnqueueReadBuffer Output_buffer, ClFinish, Gettimeofday,
       Printf_elapsed, Printf ''ALL PASSED'', ClReleaseKernel, ClReleaseMemObject Input_buffer,
       ClReleaseMemObject Output_buffer, ClReleaseCommandQueue, ClReleaseProgram,
       ClReleaseContext], Exit 0)
   \<and> main (all_succeed\<lparr>device_output := \<lambda>i. Finite (- (11520001 / 128))\<rparr>) =
     ([Gettimeofday, ClGetPlatformIDs, ClGetDeviceIDs CL_DEVICE_TYPE_GPU, ClCreateContext,
       Fopen ''add.cl'', ClCreateProgramWithSource ''kernel'', ClBuildProgram,
       ClCreateCommandQueue, ClCreateKernel ''add'', ClCreateBuffer Input_buffer,
       ClCreateBuffer Bias_buffer, ClCreateBuffer Output_buffer,
       ClSetKernelArg 0 Input_buffer, ClSetKernelArg 1 Bias_buffer,
       ClSetKernelArg 2 Output_buffer, ClEnqueueNDRangeKernel 100000, ClWaitForEvents,
       ClGetEventProfilingInfo CL_PROFILING_COMMAND_QUEUED,
       ClGetEventProfilingInfo CL_PROFILING_COMMAND_SUBMIT,
       ClGetEventProfilingInfo CL_PROFILING_COMMAND_START,
       ClGetEventProfilingInfo CL_PROFILING_COMMAND_END,
       Printf_profile 0 0 0 0 0, ClEnqueueReadBuffer Output_buffer, ClFinish, Gettimeofday,
       Printf_elapsed,
       Printf_mismatch 0 (Finite 10000) (Finite (- (11520001 / 128))),
       Printf ''CHECK RESULT FAILED''], Exit 1)"
proof -
  let ?zero = "all_succeed\<lparr>device_output := \<lambda>i. Finite 0\<rparr>"
  let ?mixed = "all_succeed\<lparr>device_output :=
              \<lambda>i. if i \<le> 90000 then Finite 0 else Finite (real i + 10000)\<rparr>"
  let ?edge = "all_succeed\<lparr>device_output := \<lambda>i. Finite (real i - 90000)\<rparr>"
  let ?above = "all_succeed\<lparr>device_output := \<lambda>i. Finite (- (11520001 / 128))\<rparr>"
  have go: "snd (run_stages until_finish ?zero) = None"
    "snd (run_stages until_finish ?mixed) = None"
    "snd (run_stages until_finish ?edge) = None"
    "snd (run_stages until_finish ?above) = None"
    by (simp_all only: until_finish_output snd_conv)
  note zero = tolerance_1e5 [OF go(1)] and mixed = tolerance_1e5 [OF go(2)]
    and edge = tolerance_1e5 [OF go(3)] and above = tolerance_1e5 [OF go(4)]
  have "\<forall>i\<le>90001. device_output ?zero i = Finite 0" by simp
  with zero have m0: "main ?zero =
      (fst (run_stages until_finish ?zero)
       @ [Printf_mismatch 90001 (Finite 100001) (Finite 0),
          Printf ''CHECK RESULT FAILED''], Exit 1)"
    by blast
  then have "Printf_mismatch 90001 (Finite 100001) (Finite 0) \<in> set (fst (main ?zero))"
    by simp
  with zero have far: "\<forall>y. Finite 0 = Finite y \<longrightarrow> 100000 < \<bar>real 90001 + 10000 - y\<bar>"
    by blast
  have "(\<forall>i\<le>90000. device_output ?mixed i = Finite 0)
      \<and> (\<forall>i. 90000 < i \<and> i < ARRAY_SIZE \<longrightarrow> device_output ?mixed i = Finite (real i + 10000))"
    by simp
  with mixed have m1: "main ?mixed =
      (fst (run_stages until_finish ?mixed) @ Printf ''ALL PASSED'' # Runtime_destructor, Exit 0)"
    by blast
  have "\<forall>i<ARRAY_SIZE. \<exists>z. device_output ?edge i = Finite z \<and> \<bar>real i + 10000 - z\<bar> \<le> 100000"
    by simp
  with edge have m2: "main ?edge =
      (fst (run_stages until_finish ?edge) @ Printf ''ALL PASSED'' # Runtime_destructor, Exit 0)"
    by blast
  have k: "(0::nat) < ARRAY_SIZE" by (simp add: ARRAY_SIZE_def)
  have "device_output ?above 0 = Finite (- (11520001 / 128))
      \<and> real 0 + 10000 - (- (11520001 / 128)) = of_int 12800001 / 2 ^ 7
      \<and> \<bar>12800001::int\<bar> < 2 ^ 24 \<and> (7::nat) \<le> 149
      \<and> 100000 < \<bar>real 0 + 10000 - (- (11520001 / 128))\<bar>
      \<and> (\<forall>j<0. \<exists>z. device_output ?above j = Finite z \<and> \<bar>real j + 10000 - z\<bar> \<le> 100000)"
    by simp
  with above k have m3: "main ?above =
      (fst (run_stages until_finish ?above)
       @ [Printf_mismatch 0 (Finite (real 0 + 10000)) (Finite (- (11520001 / 128))),
          Printf ''CHECK RESULT FAILED''], Exit 1)"
    by blast
  show ?thesis
    using go(1) far m0 m1 m2 m3
    by (simp add: until_finish_output Runtime_destructor_def)
qed

section \<open>Statuses that are never checked, and a buffer that is never released\<close>

text \<open>
  Claim C2 says that a source file that cannot be opened ends the run with the message of
  \<open>build_program\<close> and a non-zero status. The check after \<open>fopen\<close> reads the local
  \<open>status\<close>, to which nothing has been assigned, and not the handle: with no file and a
  non-negative value there, no message is printed and the null handle goes to \<open>fseek\<close>;
  with the file present and a negative value there, the run ends with the message although
  the file was opened.
\<close>

theorem missing_source_not_reported:
  "main (all_succeed\<lparr>files := \<lambda>name. None\<rparr>) =
     ([Gettimeofday, ClGetPlatformIDs, ClGetDeviceIDs CL_DEVICE_TYPE_GPU, ClCreateContext,
       Fopen ''add.cl''], Undefined_behaviour)
   \<and> main (all_succeed\<lparr>indeterminate_status := - 1\<rparr>) =
     ([Gettimeofday, ClGetPlatformIDs, ClGetDeviceIDs CL_DEVICE_TYPE_GPU, ClCreateContext,
       Fopen ''add.cl'', Printf ''find opencl kernel failed''], Exit 1)"
  by (simp add: main_def main_body_def all_succeed_def stage_defs)

text \<open>
  Claim C3 says that the destructor releases all three buffers. In a run in which nothing
  fails, the bias buffer is created and not released: \<open>~Runtime()\<close> releases the kernel,
  the input buffer, the output buffer, the queue, the program and the context. No run of
  the program releases the bias buffer.
\<close>

theorem bias_buffer_not_released:
  "main all_succeed =
     ([Gettimeofday, ClGetPlatformIDs, ClGetDeviceIDs CL_DEVICE_TYPE_GPU, ClCreateContext,
       Fopen ''add.cl'', ClCreateProgramWithSource ''kernel'', ClBuildProgram,
       ClCreateCommandQueue, ClCreateKernel ''add'', ClCreateBuffer Input_buffer,
       ClCreateBuffer Bias_buffer, ClCreateBuffer Output_buffer,
       ClSetKernelArg 0 Input_buffer, ClSetKernelArg 1 Bias_buffer,
       ClSetKernelArg 2 Output_buffer, ClEnqueueNDRangeKernel 100000, ClWaitForEvents,
       ClGetEventProfilingInfo CL_PROFILING_COMMAND_QUEUED,
       ClGetEventProfilingInfo CL_PROFILING_COMMAND_SUBMIT,
       ClGetEventProfilingInfo CL_PROFILING_COMMAND_START,
       ClGetEventProfilingInfo CL_PROFILING_COMMAND_END,
       Printf_profile 0 0 0 0 0, ClEnqueueReadBuffer Output_buffer, ClFinish, Gettimeofday,
       Printf_elapsed, Printf ''ALL PASSED'', ClReleaseKernel, ClReleaseMemObject Input_buffer,
       ClReleaseMemObject Output_buffer, ClReleaseCommandQueue, ClReleaseProgram,
       ClReleaseContext], Exit 0)
   \<and> ClCreateBuffer Bias_buffer \<in> set (fst (main all_succeed))
   \<and> (\<forall>env. ClReleaseMemObject Bias_buffer \<notin> set (fst (main env)))"
proof -
  have "all_succeed = all_succeed\<lparr>input_buffer_status := 0, bias_buffer_status := 0,
          finish_status := 0, device_output := \<lambda>i. Finite (real i + 10000)\<rparr>"
    by (simp add: all_succeed_def)
  then have "main all_succeed =
     ([Gettimeofday, ClGetPlatformIDs, ClGetDeviceIDs CL_DEVICE_TYPE_GPU, ClCreateContext,
       Fopen ''add.cl'', ClCreateProgramWithSource ''kernel'', ClBuildProgram,
       ClCreateCommandQueue, ClCreateKernel ''add'', ClCreateBuffer Input_buffer,
       ClCreateBuffer Bias_buffer, ClCreateBuffer Output_buffer,
       ClSetKernelArg 0 Input_buffer, ClSetKernelArg 1 Bias_buffer,
       ClSetKernelArg 2 Output_buffer, ClEnqueueNDRangeKernel 100000, ClWaitForEvents,
       ClGetEventProfilingInfo CL_PROFILING_COMMAND_QUEUED,
       ClGetEventProfilingInfo CL_PROFILING_COMMAND_SUBMIT,
       ClGetEventProfilingInfo CL_PROFILING_COMMAND_START,
       ClGetEventProfilingInfo CL_PROFILING_COMMAND_END,
       Printf_profile 0 0 0 0 0, ClEnqueueReadBuffer Output_buffer, ClFinish, Gettimeofday,
       Printf_elapsed, Printf ''ALL PASSED'', ClReleaseKernel, ClReleaseMemObject Input_buffer,
       ClReleaseMemObject Output_buffer, ClReleaseCommandQueue, ClReleaseProgram,
       ClReleaseContext], Exit 0)"
    using main_unchecked_statuses [OF sums_within_tolerance, where a = 0 and b = 0 and c = 0]
    by simp
  then show ?thesis using main_no_release_of_bias by simp
qed

text \<open>
  Claim C4 says that a negative status of any of the three buffer creations ends the run
  before the arguments are bound. The three calls write to the same \<open>status\<close>, which is
  checked once after the third: when the input and the bias buffer cannot be allocated
  (status \<open>-4\<close>) and the output buffer can, the run goes on to the binding and to the end.
\<close>

theorem buffer_creation_failure_unnoticed:
  "main (all_succeed\<lparr>input_buffer_status := - 4, bias_buffer_status := - 4\<rparr>) =
     ([Gettimeofday, ClGetPlatformIDs, ClGetDeviceIDs CL_DEVICE_TYPE_GPU, ClCreateContext,
       Fopen ''add.cl'', ClCreateProgramWithSource ''kernel'', ClBuildProgram,
       ClCreateCommandQueue, ClCreateKernel ''add'', ClCreateBuffer Input_buffer,
       ClCreateBuffer Bias_buffer, ClCreateBuffer Output_buffer,
       ClSetKernelArg 0 Input_buffer, ClSetKernelArg 1 Bias_buffer,
       ClSetKernelArg 2 Output_buffer, ClEnqueueNDRangeKernel 100000, ClWaitForEvents,
       ClGetEventProfilingInfo CL_PROFILING_COMMAND_QUEUED,
       ClGetEventProfilingInfo CL_PROFILING_COMMAND_SUBMIT,
       ClGetEventProfilingInfo CL_PROFILING_COMMAND_START,
       ClGetEventProfilingInfo CL_PROFILING_COMMAND_END,
       Printf_profile 0 0 0 0 0, ClEnqueueReadBuffer Output_buffer, ClFinish, Gettimeofday,
       Printf_elapsed, Printf ''ALL PASSED'', ClReleaseKernel, ClReleaseMemObject Input_buffer,
       ClReleaseMemObject Output_buffer, ClReleaseCommandQueue, ClReleaseProgram,
       ClReleaseContext], Exit 0)"
proof -
  have "all_succeed\<lparr>input_buffer_status := - 4, bias_buffer_status := - 4\<rparr> =
        all_succeed\<lparr>input_buffer_status := - 4, bias_buffer_status := - 4,
          finish_status := 0, device_output := \<lambda>i. Finite (real i + 10000)\<rparr>"
    by (simp add: all_succeed_def)
  then show ?thesis
    using main_unchecked_statuses [OF sums_within_tolerance, where a = "- 4" and b = "- 4" and c = 0]
    by simp
qed

text \<open>
  Claim C5 says that a negative status of \<open>clFinish\<close> ends the run. The status is stored and
  never looked at: with \<open>clFinish\<close> returning \<open>-5\<close> the run prints "ALL PASSED" and ends
  with status 0.
\<close>

theorem finish_failure_unnoticed:
  "main (all_succeed\<lparr>finish_status := - 5\<rparr>) =
     ([Gettimeofday, ClGetPlatformIDs, ClGetDeviceIDs CL_DEVICE_TYPE_GPU, ClCreateContext,
       Fopen ''add.cl'', ClCreateProgramWithSource ''kernel'', ClBuildProgram,
       ClCreateCommandQueue, ClCreateKernel ''add'', ClCreateBuffer Input_buffer,
       ClCreateBuffer Bias_buffer, ClCreateBuffer Output_buffer,
       ClSetKernelArg 0 Input_buffer, ClSetKernelArg 1 Bias_buffer,
       ClSetKernelArg 2 Output_buffer, ClEnqueueNDRangeKernel 100000, ClWaitForEvents,
       ClGetEventProfilingInfo CL_PROFILING_COMMAND_QUEUED,
       ClGetEventProfilingInfo CL_PROFILING_COMMAND_SUBMIT,
       ClGetEventProfilingInfo CL_PROFILING_COMMAND_START,
       ClGetEventProfilingInfo CL_PROFILING_COMMAND_END,
       Printf_profile 0 0 0 0 0, ClEnqueueReadBuffer Output_buffer, ClFinish, Gettimeofday,
       Printf_elapsed, Printf ''ALL PASSED'', ClReleaseKernel, ClReleaseMemObject Input_buffer,
       ClReleaseMemObject Output_buffer, ClReleaseCommandQueue, ClReleaseProgram,
       ClReleaseContext], Exit 0)"
proof -
  have "all_succeed\<lparr>finish_status := - 5\<rparr> =
        all_succeed\<lparr>input_buffer_status := 0, bias_buffer_status := 0,
          finish_status := - 5, device_output := \<lambda>i. Finite (real i + 10000)\<rparr>"
    by (simp add: all_succeed_def)
  then show ?thesis
    using main_unchecked_statuses [OF sums_within_tolerance, where a = 0 and b = 0 and c = "- 5"]
    by simp
qed

end
